theory Spec2Isabelle
  imports Main
begin

section \<open>Python values and built-ins\<close>

text \<open>
  The module stores Python values in an SQLite table. A field's declared type is a Python
  type object; \<open>TOther\<close> stands for any type object that is not a key of
  \<open>_TYPE_TO_SQLITE_TYPE_MAP\<close> (its argument is the type's name).
  A value is one of the classes the sqlite3 binding accepts as a bound parameter. No
  operation of the module computes with a float, so a float is carried by its \<open>repr\<close>
  text. Strings are byte strings: names and values are taken over ASCII, where
  \<open>str.lower\<close> changes the letters A-Z only.
\<close>

datatype py_type = TStr | TInt | TFloat | TBytes | TNone | TOther string

datatype py_value = VNone | VInt int | VFloat string | VStr string | VBytes string

text \<open>\<open>sep.join(xs)\<close>\<close>

fun join :: "string \<Rightarrow> string list \<Rightarrow> string" where
  "join sep [] = []"
| "join sep [x] = x"
| "join sep (x # y # ys) = x @ sep @ join sep (y # ys)"

text \<open>\<open>s.lower()\<close>\<close>

definition lower_char :: "char \<Rightarrow> char" where
  "lower_char c =
     (case map_of (zip ''ABCDEFGHIJKLMNOPQRSTUVWXYZ'' ''abcdefghijklmnopqrstuvwxyz'') c of
        Some l \<Rightarrow> l
      | None \<Rightarrow> c)"

definition lower :: "string \<Rightarrow> string" where
  "lower s = map lower_char s"

text \<open>\<open>s.rstrip(chars)\<close>: drops the trailing characters that occur in \<open>chars\<close>.\<close>

definition rstrip :: "string \<Rightarrow> string \<Rightarrow> string" where
  "rstrip s chars = rev (dropWhile (\<lambda>c. c \<in> set chars) (rev s))"

text \<open>\<open>str(n)\<close> for an int: the decimal digits, with a minus sign when negative.\<close>

fun str_nat :: "nat \<Rightarrow> string" where
  "str_nat n =
     (if n < 10 then [''0123456789'' ! n]
      else str_nat (n div 10) @ [''0123456789'' ! (n mod 10)])"

declare str_nat.simps [simp del]

definition str_int :: "int \<Rightarrow> string" where
  "str_int i = (if i < 0 then ''-'' @ str_nat (nat (- i)) else str_nat (nat i))"

text \<open>
  \<open>repr(b)\<close> for a bytes object, which is also its \<open>str\<close>: the quote is the single
  quote unless the bytes hold a single quote and no double quote; the quote and the
  backslash are escaped, tab, newline and carriage return are written \<open>\t \n \r\<close>, and
  every other byte outside the printable ASCII range as \<open>\xhh\<close>.
\<close>

definition hex2 :: "nat \<Rightarrow> string" where
  "hex2 n = [''0123456789abcdef'' ! (n div 16 mod 16), ''0123456789abcdef'' ! (n mod 16)]"

definition bytes_repr_char :: "char \<Rightarrow> char \<Rightarrow> string" where
  "bytes_repr_char quote c =
     (if c = quote \<or> c = CHR 0x5C then [CHR 0x5C, c]
      else if c = CHR 0x09 then [CHR 0x5C, CHR ''t'']
      else if c = CHR 0x0A then [CHR 0x5C, CHR ''n'']
      else if c = CHR 0x0D then [CHR 0x5C, CHR ''r'']
      else if (of_char c :: nat) < 32 \<or> 127 \<le> (of_char c :: nat)
        then [CHR 0x5C, CHR ''x''] @ hex2 (of_char c)
      else [c])"

definition bytes_repr :: "string \<Rightarrow> string" where
  "bytes_repr b =
     (let quote = (if CHR 0x27 \<in> set b \<and> CHR 0x22 \<notin> set b then CHR 0x22 else CHR 0x27)
      in [CHR ''b'', quote] @ concat (map (bytes_repr_char quote) b) @ [quote])"

text \<open>\<open>str(value)\<close>, which is what an f-string field \<open>{value}\<close> renders.\<close>

fun py_str :: "py_value \<Rightarrow> string" where
  "py_str VNone = ''None''"
| "py_str (VInt i) = str_int i"
| "py_str (VFloat r) = r"
| "py_str (VStr s) = s"
| "py_str (VBytes b) = bytes_repr b"

text \<open>
  Assignment \<open>d[k] = v\<close> on a dict, which keeps insertion order: an existing key keeps its
  place and takes the new value, a new key goes to the end. A dict is an association list
  with distinct keys.
\<close>

fun dict_set :: "('k \<times> 'v) list \<Rightarrow> 'k \<Rightarrow> 'v \<Rightarrow> ('k \<times> 'v) list" where
  "dict_set [] k v = [(k, v)]"
| "dict_set ((k', v') # d) k v =
     (if k' = k then (k, v) # d else (k', v') # dict_set d k v)"

text \<open>
  The truth value of a value, as \<open>if value\<close> and \<open>value and ...\<close> take it. Python's
  \<open>True\<close> and \<open>False\<close> are the ints 1 and 0.
\<close>

fun truthy :: "py_value \<Rightarrow> bool" where
  "truthy VNone = False"
| "truthy (VInt i) = (i \<noteq> 0)"
| "truthy (VFloat r) = (r \<noteq> ''0.0'' \<and> r \<noteq> ''-0.0'')"
| "truthy (VStr s) = (s \<noteq> [])"
| "truthy (VBytes b) = (b \<noteq> [])"

section \<open>Type mapper\<close>

text \<open>\<open>_TYPE_TO_SQLITE_TYPE_MAP.get(t)\<close>\<close>

fun type_to_sqlitetype :: "py_type \<Rightarrow> string option" where
  "type_to_sqlitetype TStr = Some ''TEXT''"
| "type_to_sqlitetype TInt = Some ''INTEGER''"
| "type_to_sqlitetype TFloat = Some ''REAL''"
| "type_to_sqlitetype TBytes = Some ''BLOB''"
| "type_to_sqlitetype TNone = Some ''NULL''"
| "type_to_sqlitetype (TOther n) = None"

text \<open>An f-string field holding a \<open>str | None\<close>: \<open>None\<close> renders as the text None.\<close>

fun str_or_None :: "string option \<Rightarrow> string" where
  "str_or_None (Some s) = s"
| "str_or_None None = ''None''"

section \<open>Errors\<close>

text \<open>
  The message of a keys-validation failure is either \<open>keys not equal\<close> or
  \<open>unexpected keys: \<close> followed by the offending keys joined by a comma and a space, in
  the iteration order of a Python set, which is not specified: the error carries the set.
  \<open>TypeError\<close> is what a call raises that does not fit the signature of the method, and
  \<open>OverflowError\<close> what \<open>cursor.execute\<close> raises for an int parameter outside the
  signed 64-bit range; their messages are left out. \<open>StorageError\<close> stands for the
  exceptions of the storage engine (\<open>sqlite3.Error\<close>).

  \<open>Unmodelled\<close> is no exception of the program: it marks a call whose outcome the
  model of the storage engine below does not determine. No statement proved here
  concludes it.
\<close>

datatype kvf_message = KeysNotEqual | UnexpectedKeys "string set"

datatype error =
    NameError string
  | ValueError string
  | KeysValidationFailure kvf_message
  | KeyError string
  | IndexError
  | TypeError
  | OverflowError
  | StorageError string
  | Unmodelled

section \<open>Schema definition\<close>

record RowDef =
  name :: string
  type :: py_type
  unique :: bool
  nullable :: bool

text \<open>
  The argument of \<open>TableDef.__init__\<close>: a Mapping from names to types (a dict, in its
  order), or another Iterable, whose elements are \<open>_RowDef\<close> objects or anything else
  (\<open>NotRowDef\<close> carries the text of the element's type), or an object that is neither.
\<close>

datatype element = ARowDef RowDef | NotRowDef string

datatype cdef = IsMapping "(string \<times> py_type) list" | IsIterable "element list" | Neither

subsection \<open>Blocking variant (sqlitemplate.py)\<close>

fun TableDef_mapping :: "(string \<times> py_type) list \<Rightarrow> RowDef list \<Rightarrow> error + RowDef list" where
  "TableDef_mapping [] self = Inr self"
| "TableDef_mapping ((n, t) # rest) self =
     (if lower n = ''id'' then Inl (NameError ''name `id` is reserved for inner use'')
      else TableDef_mapping rest
             (self @ [\<lparr>name = n, type = t, unique = False, nullable = False\<rparr>]))"

fun TableDef_iterable :: "element list \<Rightarrow> RowDef list \<Rightarrow> error + RowDef list" where
  "TableDef_iterable [] self = Inr self"
| "TableDef_iterable (ARowDef rd # rest) self = TableDef_iterable rest (self @ [rd])"
| "TableDef_iterable (NotRowDef ty # rest) self =
     Inl (ValueError (''expect RowDef, got '' @ ty))"

definition TableDef :: "cdef \<Rightarrow> error + RowDef list" where
  "TableDef cdef =
     (case cdef of
        IsMapping m \<Rightarrow> TableDef_mapping m []
      | IsIterable xs \<Rightarrow> TableDef_iterable xs []
      | Neither \<Rightarrow> Inr [])"

text \<open>\<open>TableDef.as_dict\<close>: later fields overwrite earlier ones of the same name.\<close>

definition as_dict :: "RowDef list \<Rightarrow> (string \<times> py_type) list" where
  "as_dict self = foldl (\<lambda>result r. dict_set result (name r) (type r)) [] self"

text \<open>
  \<open>validate_keys(d, dt, fullmatch)\<close>; \<open>dt\<close> is a TableDef (\<open>Inl\<close>) or a Mapping
  (\<open>Inr\<close>).
\<close>

definition validate_keys ::
  "(string \<times> 'v) list \<Rightarrow> RowDef list + (string \<times> 't) list \<Rightarrow> bool \<Rightarrow> error + unit" where
  "validate_keys d dt fullmatch =
     (let dt_keys = (case dt of Inl td \<Rightarrow> set (map name td) | Inr m \<Rightarrow> set (map fst m));
          d_keys = set (map fst d)
      in if fullmatch
         then (if d_keys \<noteq> dt_keys then Inl (KeysValidationFailure KeysNotEqual)
               else Inr ())
         else (let unexpected_keys = d_keys - dt_keys
               in if unexpected_keys \<noteq> {}
                  then Inl (KeysValidationFailure (UnexpectedKeys unexpected_keys))
                  else Inr ()))"

subsection \<open>Cooperative variant (async_sqlitemplate.py)\<close>

definition RESERVED_COLUMNS :: "string set" where
  "RESERVED_COLUMNS = {''id'', ''_fuzzy_match_''}"

fun TableDef_mapping_async ::
  "(string \<times> py_type) list \<Rightarrow> RowDef list \<Rightarrow> error + RowDef list" where
  "TableDef_mapping_async [] self = Inr self"
| "TableDef_mapping_async ((n, t) # rest) self =
     (if lower n \<in> RESERVED_COLUMNS
      then Inl (NameError (''name `'' @ n @ ''` is reserved for inner use''))
      else TableDef_mapping_async rest
             (self @ [\<lparr>name = n, type = t, unique = False, nullable = False\<rparr>]))"

fun TableDef_iterable_async :: "element list \<Rightarrow> RowDef list \<Rightarrow> error + RowDef list" where
  "TableDef_iterable_async [] self = Inr self"
| "TableDef_iterable_async (ARowDef rd # rest) self =
     (let self' = self @ [rd]
      in if lower (name rd) \<in> RESERVED_COLUMNS
         then Inl (NameError (''name `'' @ name rd @ ''` is reserved for inner use''))
         else TableDef_iterable_async rest self')"
| "TableDef_iterable_async (NotRowDef ty # rest) self =
     Inl (ValueError (''expect RowDef, got '' @ ty))"

definition TableDef_async :: "cdef \<Rightarrow> error + RowDef list" where
  "TableDef_async cdef =
     (case cdef of
        IsMapping m \<Rightarrow> TableDef_mapping_async m []
      | IsIterable xs \<Rightarrow> TableDef_iterable_async xs []
      | Neither \<Rightarrow> Inr [])"

definition as_dict_async :: "RowDef list \<Rightarrow> (string \<times> py_type) list" where
  "as_dict_async self = foldl (\<lambda>result r. dict_set result (name r) (type r)) [] self"

definition validate_keys_async ::
  "(string \<times> 'v) list \<Rightarrow> RowDef list + (string \<times> 't) list \<Rightarrow> bool \<Rightarrow> error + unit" where
  "validate_keys_async d dt fullmatch =
     (let dt_keys = (case dt of Inl td \<Rightarrow> set (map name td) | Inr m \<Rightarrow> set (map fst m));
          d_keys = set (map fst d)
      in if fullmatch
         then (if d_keys \<noteq> dt_keys then Inl (KeysValidationFailure KeysNotEqual)
               else Inr ())
         else (let unexpected_keys = d_keys - dt_keys
               in if unexpected_keys \<noteq> {}
                  then Inl (KeysValidationFailure (UnexpectedKeys unexpected_keys))
                  else Inr ()))"

section \<open>Storage engine\<close>

text \<open>
  Modelled from the spec: the storage engine behind \<open>cursor.execute\<close> (SQLite, reached
  through sqlite3 and aiosqlite), which is not among the sources. The model follows the
  spec's storage-engine boundary: a statement is executed whole or has no effect; every
  stored record carries an id assigned by the engine on insert, unique, increasing and
  never reused; a delete or an update by an id that is not stored changes nothing and is
  no error; a violated column constraint is a storage error.

  A statement is kept by its shape and parts, not by its text. Where the spec is silent
  the model takes SQLite's rules, and where it does not know them it answers
  \<open>Unmodelled\<close>:

  \<^item> a name is read as that very name when it is made of ASCII letters, digits and the
    underscore, does not start with a digit, is no SQL keyword and does not start with
    \<open>sqlite_\<close>; every other name is outside the model, and so is a name that equals a
    column's name up to case only;
  \<^item> a column list that starts with an empty item (the text rendered for a schema with
    no field) is a syntax error, whether or not the table exists;
  \<^item> an int parameter outside the signed 64-bit range raises OverflowError before the
    statement runs, and a float NaN is bound as NULL;
  \<^item> a column stores NULL, and a value of its own storage class, as bound, with two
    exceptions: a REAL column gives back negative zero as \<open>0.0\<close>, and a TEXT column
    turns an int into its decimal text; what a column does with a value of another class
    is outside the model, and so is a column whose declared type is none of the four
    storage types;
  \<^item> a comparison with NULL never holds, and LIKE matches letters without regard to
    case.
\<close>

datatype condition = Equals string py_value | Like string py_value

datatype statement =
    CreateTable string "RowDef list"
  | Insert string "string list" "py_value list"
  | Delete string int
  | Update string "(string \<times> py_value) list" int
  | Select string "condition list"

text \<open>A stored row: its id and one value per declared column, in column order.\<close>

type_synonym row = "int \<times> py_value list"

record table =
  columns :: "RowDef list"
  rows :: "row list"
  sequence :: int

type_synonym storage = "string \<Rightarrow> table option"

record result =
  fetchall :: "py_value list list"
  lastrowid :: "int option"

definition no_result :: result where
  "no_result = \<lparr>fetchall = [], lastrowid = None\<rparr>"

text \<open>The integers of SQLite's INTEGER storage class.\<close>

definition int64 :: "int \<Rightarrow> bool" where
  "int64 i \<longleftrightarrow> - (2 ^ 63) \<le> i \<and> i < 2 ^ 63"

text \<open>The SQL keywords of SQLite, in lower case.\<close>

definition sql_keywords :: "string list" where
  "sql_keywords =
    [''abort'', ''action'', ''add'', ''after'', ''all'', ''alter'', ''always'',
     ''analyze'', ''and'', ''as'', ''asc'', ''attach'', ''autoincrement'', ''before'',
     ''begin'', ''between'', ''by'', ''cascade'', ''case'', ''cast'', ''check'',
     ''collate'', ''column'', ''commit'', ''conflict'', ''constraint'', ''create'',
     ''cross'', ''current'', ''current_date'', ''current_time'', ''current_timestamp'',
     ''database'', ''default'', ''deferrable'', ''deferred'', ''delete'', ''desc'',
     ''detach'', ''distinct'', ''do'', ''drop'', ''each'', ''else'', ''end'', ''escape'',
     ''except'', ''exclude'', ''exclusive'', ''exists'', ''explain'', ''fail'', ''filter'',
     ''first'', ''following'', ''for'', ''foreign'', ''from'', ''full'', ''generated'',
     ''glob'', ''group'', ''groups'', ''having'', ''if'', ''ignore'', ''immediate'',
     ''in'', ''index'', ''indexed'', ''initially'', ''inner'', ''insert'', ''instead'',
     ''intersect'', ''into'', ''is'', ''isnull'', ''join'', ''key'', ''last'', ''left'',
     ''like'', ''limit'', ''match'', ''materialized'', ''natural'', ''no'', ''not'',
     ''nothing'', ''notnull'', ''null'', ''nulls'', ''of'', ''offset'', ''on'', ''or'',
     ''order'', ''others'', ''outer'', ''over'', ''partition'', ''plan'', ''pragma'',
     ''preceding'', ''primary'', ''query'', ''raise'', ''range'', ''recursive'',
     ''references'', ''regexp'', ''reindex'', ''release'', ''rename'', ''replace'',
     ''restrict'', ''returning'', ''right'', ''rollback'', ''row'', ''rows'',
     ''savepoint'', ''select'', ''set'', ''table'', ''temp'', ''temporary'', ''then'',
     ''ties'', ''to'', ''transaction'', ''trigger'', ''unbounded'', ''union'', ''unique'',
     ''update'', ''using'', ''vacuum'', ''values'', ''view'', ''virtual'', ''when'',
     ''where'', ''window'', ''with'', ''without'']"

definition plain :: "string \<Rightarrow> bool" where
  "plain n \<longleftrightarrow>
     n \<noteq> [] \<and>
     list_all (\<lambda>c. c \<in> set ''abcdefghijklmnopqrstuvwxyzABCDEFGHIJKLMNOPQRSTUVWXYZ0123456789_'') n \<and>
     hd n \<notin> set ''0123456789'' \<and>
     lower n \<notin> set sql_keywords \<and>
     take 7 (lower n) \<noteq> ''sqlite_''"

text \<open>The declared types that render as one of the four storage types.\<close>

fun primitive :: "py_type \<Rightarrow> bool" where
  "primitive TStr = True"
| "primitive TInt = True"
| "primitive TFloat = True"
| "primitive TBytes = True"
| "primitive TNone = False"
| "primitive (TOther n) = False"

text \<open>Binding a parameter.\<close>

fun unbindable :: "py_value \<Rightarrow> bool" where
  "unbindable (VInt i) = (\<not> int64 i)"
| "unbindable v = False"

definition bound :: "py_value \<Rightarrow> py_value" where
  "bound v = (if v = VFloat ''nan'' then VNone else v)"

text \<open>
  What a column of the given declared type makes of a bound value when it stores it or
  is compared with it (\<open>None\<close>: outside the model), and the values a column holds.
\<close>

fun affinity :: "py_type \<Rightarrow> py_value \<Rightarrow> py_value option" where
  "affinity ty VNone = Some VNone"
| "affinity TStr (VStr s) = Some (VStr s)"
| "affinity TStr (VInt i) = Some (VStr (str_int i))"
| "affinity TInt (VInt i) = Some (VInt i)"
| "affinity TFloat (VFloat f) = Some (VFloat (if f = ''-0.0'' then ''0.0'' else f))"
| "affinity TBytes (VBytes b) = Some (VBytes b)"
| "affinity ty v = None"

fun stored_ok :: "py_type \<Rightarrow> py_value \<Rightarrow> bool" where
  "stored_ok ty VNone = True"
| "stored_ok TStr (VStr s) = True"
| "stored_ok TInt (VInt i) = int64 i"
| "stored_ok TFloat (VFloat f) = (f \<noteq> ''nan'' \<and> f \<noteq> ''-0.0'')"
| "stored_ok TBytes (VBytes b) = True"
| "stored_ok ty v = False"

text \<open>
  The tables the model speaks of: columns with plain names, different from each other
  and from \<open>id\<close> without regard to case, of the four storage types; rows with an id and
  one value per column that the column holds.
\<close>

definition modelled_table :: "table \<Rightarrow> bool" where
  "modelled_table t \<longleftrightarrow>
     list_all (\<lambda>c. plain (name c) \<and> primitive (type c)) (columns t) \<and>
     distinct (map lower (map name (columns t) @ [''id''])) \<and>
     list_all (\<lambda>r. int64 (fst r) \<and> list_all2 stored_ok (map type (columns t)) (snd r)) (rows t) \<and>
     int64 (sequence t)"

text \<open>A name in a statement that names a column of the table does so as written.\<close>

definition named :: "table \<Rightarrow> string \<Rightarrow> bool" where
  "named t k \<longleftrightarrow>
     plain k \<and>
     list_all (\<lambda>c. lower k \<noteq> lower c \<or> k = c) (map name (columns t) @ [''id''])"

definition column_type :: "RowDef list \<Rightarrow> string \<Rightarrow> py_type option" where
  "column_type cols k = map_of (map (\<lambda>c. (name c, type c)) cols @ [(''id'', TInt)]) k"

text \<open>The value of column number \<open>k\<close> of a row (NULL when the row has no such cell).\<close>

definition cell :: "py_value list \<Rightarrow> nat \<Rightarrow> py_value" where
  "cell vals k = (if k < length vals then vals ! k else VNone)"

text \<open>
  The column constraints the create statement declares: a column that is not nullable
  holds no NULL, and the values of a unique column other than NULL are distinct.
\<close>

definition column_ok :: "row list \<Rightarrow> RowDef \<times> nat \<Rightarrow> bool" where
  "column_ok rs ck =
     (let vs = map (\<lambda>r. cell (snd r) (snd ck)) rs
      in (nullable (fst ck) \<or> VNone \<notin> set vs) \<and>
         (\<not> unique (fst ck) \<or> distinct (filter (\<lambda>v. v \<noteq> VNone) vs)))"

definition constraints_ok :: "table \<Rightarrow> bool" where
  "constraints_ok t =
     list_all (column_ok (rows t)) (zip (columns t) [0 ..< length (columns t)])"

text \<open>The id an insert assigns: one more than every id assigned so far.\<close>

definition next_id :: "table \<Rightarrow> int" where
  "next_id t = fold max (map fst (rows t)) (sequence t) + 1"

text \<open>
  What a statement makes a column hold: what the column makes of the value bound to its
  name, or the default.
\<close>

definition stored :: "(string \<times> py_value) list \<Rightarrow> py_value \<Rightarrow> RowDef \<Rightarrow> py_value option" where
  "stored binds dflt c =
     (case map_of binds (name c) of
        None \<Rightarrow> Some dflt
      | Some v \<Rightarrow> affinity (type c) (bound v))"

text \<open>
  SQLite's LIKE: \<open>%\<close> matches any run of characters, \<open>_\<close> any one character, and
  letters match without regard to case.
\<close>

fun like_match :: "string \<Rightarrow> string \<Rightarrow> bool" where
  "like_match [] s = (s = [])"
| "like_match (p # ps) [] = (p = CHR ''%'' \<and> like_match ps [])"
| "like_match (p # ps) (c # cs) =
     (if p = CHR ''%'' then like_match ps (c # cs) \<or> like_match (p # ps) cs
      else (p = CHR ''_'' \<or> lower_char p = lower_char c) \<and> like_match ps cs)"

text \<open>The cells of a stored row by column name; \<open>SELECT *\<close> lists the id last.\<close>

definition named_cells :: "RowDef list \<Rightarrow> row \<Rightarrow> (string \<times> py_value) list" where
  "named_cells cols r = zip (map name cols) (snd r) @ [(''id'', VInt (fst r))]"

fun condition_column :: "condition \<Rightarrow> string" where
  "condition_column (Equals k p) = k"
| "condition_column (Like k p) = k"

fun condition_value :: "condition \<Rightarrow> py_value" where
  "condition_value (Equals k p) = p"
| "condition_value (Like k p) = p"

text \<open>
  The comparisons the model speaks of, and when one holds of a row. The parameter of an
  equality is taken as the column takes a value it stores; LIKE is modelled on a TEXT
  column against a text pattern.
\<close>

fun comparable :: "RowDef list \<Rightarrow> condition \<Rightarrow> bool" where
  "comparable cols (Equals k p) =
     (case column_type cols k of
        None \<Rightarrow> False
      | Some ty \<Rightarrow> affinity ty (bound p) \<noteq> None)"
| "comparable cols (Like k p) =
     (column_type cols k = Some TStr \<and> (case p of VStr s \<Rightarrow> True | _ \<Rightarrow> False))"

fun holds :: "RowDef list \<Rightarrow> row \<Rightarrow> condition \<Rightarrow> bool" where
  "holds cols r (Equals k p) =
     (case (column_type cols k, map_of (named_cells cols r) k) of
        (Some ty, Some v) \<Rightarrow> v \<noteq> VNone \<and> affinity ty (bound p) = Some v
      | _ \<Rightarrow> False)"
| "holds cols r (Like k p) =
     (case map_of (named_cells cols r) k of
        Some (VStr s) \<Rightarrow> like_match (py_str p) s
      | _ \<Rightarrow> False)"

definition update_row :: "RowDef list \<Rightarrow> (string \<times> py_value) list \<Rightarrow> int \<Rightarrow> row \<Rightarrow> row" where
  "update_row cols binds i r =
     (if fst r = i
      then (fst r, map (\<lambda>cv. the (stored binds (snd cv) (fst cv))) (zip cols (snd r)))
      else r)"

text \<open>
  Running a statement. The checks come in the engine's order: the text is compiled
  (syntax, table, columns), the parameters are counted and bound, the statement runs.
\<close>

fun run :: "statement \<Rightarrow> storage \<Rightarrow> error + (storage \<times> result)" where
  "run (CreateTable tn cols) s =
     (if cols = [] then Inl (StorageError ''syntax error'')
      else if \<not> (plain tn \<and> list_all (\<lambda>c. plain (name c) \<and> primitive (type c)) cols)
      then Inl Unmodelled
      else case s tn of
        Some t \<Rightarrow> Inr (s, no_result)
      | None \<Rightarrow>
          if \<not> distinct (map lower (map name cols @ [''id'']))
          then Inl (StorageError ''duplicate column name'')
          else Inr (s(tn \<mapsto> \<lparr>columns = cols, rows = [], sequence = 0\<rparr>), no_result))"
| "run (Insert tn cols vals) s =
     (if cols = [] then Inl (StorageError ''syntax error'')
      else if \<not> plain tn then Inl Unmodelled
      else case s tn of
        None \<Rightarrow> Inl (StorageError ''no such table'')
      | Some t \<Rightarrow>
          if \<not> (modelled_table t \<and> list_all (named t) cols \<and> distinct cols \<and> ''id'' \<notin> set cols)
          then Inl Unmodelled
          else if \<not> set cols \<subseteq> set (map name (columns t))
          then Inl (StorageError ''no such column'')
          else if length cols \<noteq> length vals
          then Inl (StorageError ''incorrect number of bindings'')
          else if list_ex unbindable vals then Inl OverflowError
          else if \<not> list_all (\<lambda>c. stored (zip cols vals) VNone c \<noteq> None) (columns t)
          then Inl Unmodelled
          else
            let i = next_id t;
                t' = t\<lparr>rows := rows t
                                @ [(i, map (\<lambda>c. the (stored (zip cols vals) VNone c)) (columns t))],
                       sequence := i\<rparr>
            in if \<not> int64 i then Inl (StorageError ''database or disk is full'')
               else if \<not> constraints_ok t' then Inl (StorageError ''constraint failed'')
               else Inr (s(tn \<mapsto> t'), \<lparr>fetchall = [], lastrowid = Some i\<rparr>))"
| "run (Delete tn i) s =
     (if \<not> plain tn then Inl Unmodelled
      else case s tn of
        None \<Rightarrow> Inl (StorageError ''no such table'')
      | Some t \<Rightarrow>
          if \<not> int64 i then Inl OverflowError
          else Inr (s(tn \<mapsto> t\<lparr>rows := filter (\<lambda>r. fst r \<noteq> i) (rows t)\<rparr>), no_result))"
| "run (Update tn binds i) s =
     (if binds = [] then Inl (StorageError ''syntax error'')
      else if \<not> plain tn then Inl Unmodelled
      else case s tn of
        None \<Rightarrow> Inl (StorageError ''no such table'')
      | Some t \<Rightarrow>
          if \<not> (modelled_table t \<and> list_all (named t) (map fst binds) \<and>
                 distinct (map fst binds) \<and> ''id'' \<notin> set (map fst binds))
          then Inl Unmodelled
          else if \<not> set (map fst binds) \<subseteq> set (map name (columns t))
          then Inl (StorageError ''no such column'')
          else if list_ex unbindable (map snd binds @ [VInt i]) then Inl OverflowError
          else if \<not> list_all (\<lambda>c. stored binds VNone c \<noteq> None) (columns t)
          then Inl Unmodelled
          else
            let t' = t\<lparr>rows := map (update_row (columns t) binds i) (rows t)\<rparr>
            in if \<not> constraints_ok t' then Inl (StorageError ''constraint failed'')
               else Inr (s(tn \<mapsto> t'), no_result))"
| "run (Select tn conds) s =
     (if \<not> plain tn then Inl Unmodelled
      else case s tn of
        None \<Rightarrow> Inl (StorageError ''no such table'')
      | Some t \<Rightarrow>
          if \<not> (modelled_table t \<and> list_all (\<lambda>c. named t (condition_column c)) conds)
          then Inl Unmodelled
          else if \<not> set (map condition_column conds) \<subseteq> set (map name (columns t) @ [''id''])
          then Inl (StorageError ''no such column'')
          else if list_ex unbindable (map condition_value conds) then Inl OverflowError
          else if \<not> list_all (comparable (columns t)) conds then Inl Unmodelled
          else Inr (s, \<lparr>fetchall =
                           map (\<lambda>r. snd r @ [VInt (fst r)])
                             (filter (\<lambda>r. list_all (holds (columns t) r) conds) (rows t)),
                         lastrowid = None\<rparr>))"

text \<open>
  The statements before which sqlite3 opens a transaction, and whether the text of a
  statement compiles: it does unless running it ends in one of the errors found when the
  text is read.
\<close>

fun dml :: "statement \<Rightarrow> bool" where
  "dml (Insert tn cols vals) = True"
| "dml (Delete tn i) = True"
| "dml (Update tn binds i) = True"
| "dml st = False"

definition compiles :: "statement \<Rightarrow> storage \<Rightarrow> bool" where
  "compiles st s =
     (case run st s of
        Inl (StorageError m) \<Rightarrow>
          m \<notin> set [''syntax error'', ''no such table'', ''no such column'',
                    ''duplicate column name'']
      | Inl Unmodelled \<Rightarrow> False
      | _ \<Rightarrow> True)"

section \<open>Data access engine, blocking variant (sqlitemplate.py)\<close>

text \<open>
  What an operation does outside its own object is recorded in a world: the tables of the
  database file as the engine's connection sees them (\<open>storage\<close>) and as they are
  committed to the file (\<open>saved\<close>), which is what is left when a connection closes; the
  calls made to the storage engine so far, in order; and, for the cooperative variant,
  whether the engine object holds an open connection in \<open>_conn\<close> and whether that
  connection is inside a transaction. \<open>Execute\<close> carries the text and the bound
  parameters passed to \<open>cursor.execute\<close>. A world is the world of one engine object. The
  reader/writer lock only orders concurrent callers and has no part in a single call.
\<close>

datatype event = Connect | Execute string "py_value list"

record world =
  storage :: storage
  trace :: "event list"
  conn :: bool
  saved :: storage
  transaction :: bool

record database =
  tabledef :: "RowDef list"
  datadef :: "(string \<times> py_type) list"
  datadef_with_id :: "(string \<times> py_type) list"
  table_name :: string
  dbpath :: string

text \<open>
  \<open>cursor.execute(query, params)\<close>: the call is recorded with the text and the
  parameters as the code passes them. The engine is not modelled down to its parser: the
  statement that the text and the parameters denote is handed over beside them (the third
  argument), and the engine runs that. A statement that fails leaves the tables as they
  were.
\<close>

definition cursor_execute ::
  "string \<Rightarrow> py_value list \<Rightarrow> statement \<Rightarrow> world \<Rightarrow> (error + result) \<times> world" where
  "cursor_execute query params st w =
     (let w' = w\<lparr>trace := trace w @ [Execute query params]\<rparr>
      in case run st (storage w') of
           Inl e \<Rightarrow> (Inl e, w')
         | Inr (s', r) \<Rightarrow> (Inr r, w'\<lparr>storage := s'\<rparr>))"

text \<open>
  \<open>_get_connection\<close>: a new connection for every operation. It sees the tables as they
  are saved; these are the tables of \<open>storage\<close> in every world that the operations of
  the blocking variant reach from a world in which the two agree, since each of them
  commits what it has changed.
\<close>

definition get_connection :: "world \<Rightarrow> world" where
  "get_connection w = w\<lparr>trace := trace w @ [Connect]\<rparr>"

text \<open>
  Leaving \<open>with ... as conn\<close> without an exception commits. Leaving it with an exception
  rolls back, which undoes nothing: the connection was new and its one statement failed.
\<close>

definition commit :: "world \<Rightarrow> world" where
  "commit w = w\<lparr>saved := storage w\<rparr>"

definition nl :: string where
  "nl = [CHR 0x0A]"

definition spaces :: "nat \<Rightarrow> string" where
  "spaces n = replicate n (CHR '' '')"

definition column_sql :: "RowDef \<Rightarrow> string" where
  "column_sql rd =
     name rd @ '' '' @ str_or_None (type_to_sqlitetype (type rd))
     @ (if unique rd then '' UNIQUE'' else [])
     @ (if nullable rd then [] else '' NOT NULL'')"

definition create_table_query :: "database \<Rightarrow> string" where
  "create_table_query self =
     nl @ spaces 16 @ ''CREATE TABLE IF NOT EXISTS '' @ table_name self @ '' ('' @ nl
     @ spaces 20 @ join '', '' (map column_sql (tabledef self)) @ '','' @ nl
     @ spaces 20 @ ''id INTEGER PRIMARY KEY AUTOINCREMENT'' @ nl
     @ spaces 16 @ '')'' @ nl
     @ spaces 16"

definition create_table :: "database \<Rightarrow> world \<Rightarrow> (error + unit) \<times> world" where
  "create_table self w =
     (let w1 = get_connection w
      in case cursor_execute (create_table_query self) []
                (CreateTable (table_name self) (tabledef self)) w1 of
           (Inl e, w2) \<Rightarrow> (Inl e, w2)
         | (Inr r, w2) \<Rightarrow> (Inr (), commit w2))"

text \<open>\<open>_DataBase.__init__\<close>\<close>

definition DataBase_init ::
  "string \<Rightarrow> RowDef list \<Rightarrow> string \<Rightarrow> world \<Rightarrow> (error + database) \<times> world" where
  "DataBase_init path td tablename w =
     (let self = \<lparr>tabledef = td, datadef = as_dict td,
                  datadef_with_id = dict_set (as_dict td) ''id'' TInt,
                  table_name = tablename, dbpath = path\<rparr>
      in case create_table self w of
           (Inl e, w') \<Rightarrow> (Inl e, w')
         | (Inr u, w') \<Rightarrow> (Inr self, w'))"

text \<open>
  \<open>dbcls_factory\<close>: its first argument is a TableDef (\<open>Inl\<close>) or an argument for the
  TableDef constructor (\<open>Inr\<close>). The class it returns is given by its constructor.
\<close>

definition dbcls_factory ::
  "RowDef list + cdef \<Rightarrow> string \<Rightarrow> string option \<Rightarrow>
   error + (string \<Rightarrow> world \<Rightarrow> (error + database) \<times> world)" where
  "dbcls_factory td cls_name tablename =
     (let tablename' = (case tablename of None \<Rightarrow> cls_name | Some t \<Rightarrow> t)
      in case (case td of Inl d \<Rightarrow> Inr d | Inr c \<Rightarrow> TableDef c) of
           Inl e \<Rightarrow> Inl e
         | Inr d \<Rightarrow> Inr (\<lambda>path. DataBase_init path d tablename'))"

text \<open>\<open>[item[k] for k in keys]\<close>: a missing key raises KeyError.\<close>

fun getitems :: "(string \<times> py_value) list \<Rightarrow> string list \<Rightarrow> error + py_value list" where
  "getitems item [] = Inr []"
| "getitems item (k # ks) =
     (case map_of item k of
        None \<Rightarrow> Inl (KeyError k)
      | Some v \<Rightarrow> (case getitems item ks of Inl e \<Rightarrow> Inl e | Inr vs \<Rightarrow> Inr (v # vs)))"

definition add_query :: "database \<Rightarrow> string" where
  "add_query self =
     nl @ spaces 16 @ ''INSERT INTO '' @ table_name self
     @ '' ('' @ join '', '' (map fst (datadef self)) @ '')'' @ nl
     @ spaces 16 @ ''VALUES ('' @ join '', '' (replicate (length (datadef self)) ''?'')
     @ '')'' @ nl
     @ spaces 16"

definition add ::
  "database \<Rightarrow> (string \<times> py_value) list \<Rightarrow> world \<Rightarrow> (error + int option) \<times> world" where
  "add self item w =
     (case validate_keys item (Inr (datadef self)) True of
        Inl e \<Rightarrow> (Inl e, w)
      | Inr u \<Rightarrow>
          (let w1 = get_connection w
           in (case getitems item (map fst (datadef self)) of
                 Inl e \<Rightarrow> (Inl e, w1)
               | Inr params \<Rightarrow>
                   (case cursor_execute (add_query self) params
                           (Insert (table_name self) (map fst (datadef self)) params) w1 of
                      (Inl e, w2) \<Rightarrow> (Inl e, w2)
                    | (Inr r, w2) \<Rightarrow> (Inr (lastrowid r), commit w2)))))"

definition delete_query :: "database \<Rightarrow> string" where
  "delete_query self = ''DELETE FROM '' @ table_name self @ '' WHERE id = ?''"

definition delete :: "database \<Rightarrow> int \<Rightarrow> world \<Rightarrow> (error + unit) \<times> world" where
  "delete self item_id w =
     (let w1 = get_connection w
      in case cursor_execute (delete_query self) [VInt item_id]
                (Delete (table_name self) item_id) w1 of
           (Inl e, w2) \<Rightarrow> (Inl e, w2)
         | (Inr r, w2) \<Rightarrow> (Inr (), commit w2))"

text \<open>The loop of \<open>modify\<close> over \<open>info.items()\<close> and the two lines after it.\<close>

definition modify_query ::
  "database \<Rightarrow> int \<Rightarrow> (string \<times> py_value) list \<Rightarrow> string \<times> py_value list" where
  "modify_query self item_id info =
     (let (update_query, update_values) =
            foldl (\<lambda>(q, vs) (key, value). (q @ key @ '' = ?, '', vs @ [value]))
              (''UPDATE '' @ table_name self @ '' SET '', []) info
      in (rstrip update_query '', '' @ '' WHERE id = ?'', update_values @ [VInt item_id]))"

text \<open>
  The body of \<open>modify\<close>, once the call has bound \<open>item_id\<close> to an int and \<open>info\<close> to the
  other keyword arguments.
\<close>

definition modify ::
  "database \<Rightarrow> int \<Rightarrow> (string \<times> py_value) list \<Rightarrow> world \<Rightarrow> (error + unit) \<times> world" where
  "modify self item_id info w =
     (if info = [] then (Inr (), w)
      else case validate_keys info (Inr (datadef self)) False of
        Inl e \<Rightarrow> (Inl e, w)
      | Inr u \<Rightarrow>
          (let (update_query, update_values) = modify_query self item_id info;
               w1 = get_connection w
           in (case cursor_execute update_query update_values
                     (Update (table_name self) info item_id) w1 of
                 (Inl e, w2) \<Rightarrow> (Inl e, w2)
               | (Inr r, w2) \<Rightarrow> (Inr (), commit w2))))"

text \<open>
  The loop of \<open>search\<close> over \<open>info.items()\<close>: the condition texts, the bound parameters,
  and beside them the conditions as the engine reads them.
\<close>

definition search_loop ::
  "database \<Rightarrow> bool \<Rightarrow> (string \<times> py_value) list \<Rightarrow>
   string list \<times> py_value list \<times> condition list" where
  "search_loop self fuzzy_match info =
     foldl (\<lambda>(conditions, params, conds) (key, value).
              if fuzzy_match \<and> map_of (datadef_with_id self) key = Some TStr
              then (conditions @ [key @ '' LIKE ?''],
                    params @ [VStr (''%'' @ py_str value @ ''%'')],
                    conds @ [Like key (VStr (''%'' @ py_str value @ ''%''))])
              else (conditions @ [key @ '' = ?''],
                    params @ [value],
                    conds @ [Equals key value]))
       ([], [], []) info"

definition search_query ::
  "database \<Rightarrow> bool \<Rightarrow> (string \<times> py_value) list \<Rightarrow> string \<times> py_value list" where
  "search_query self fuzzy_match info =
     (let query = ''SELECT * FROM '' @ table_name self
      in if info \<noteq> []
         then (let (conditions, params, conds) = search_loop self fuzzy_match info
               in (query @ '' WHERE '' @ join '' AND '' conditions, params))
         else (query, []))"

text \<open>
  \<open>{k: row[i] for i, k in enumerate(keys)}\<close>: a row shorter than the key list raises
  IndexError; cells beyond the keys are dropped.
\<close>

definition render_row :: "string list \<Rightarrow> py_value list \<Rightarrow> error + (string \<times> py_value) list" where
  "render_row keys r = (if length r < length keys then Inl IndexError else Inr (zip keys r))"

fun render_rows ::
  "string list \<Rightarrow> py_value list list \<Rightarrow> error + (string \<times> py_value) list list" where
  "render_rows keys [] = Inr []"
| "render_rows keys (r # rs) =
     (case render_row keys r of
        Inl e \<Rightarrow> Inl e
      | Inr book \<Rightarrow>
          (case render_rows keys rs of Inl e \<Rightarrow> Inl e | Inr books \<Rightarrow> Inr (book # books)))"

text \<open>
  The body of \<open>search\<close>, once the call has bound the flag and \<open>info\<close>; the flag counts by
  its truth value. The rows are rendered after the \<open>with\<close> block has been left.
\<close>

definition search ::
  "database \<Rightarrow> bool \<Rightarrow> (string \<times> py_value) list \<Rightarrow> world \<Rightarrow>
   (error + (string \<times> py_value) list list) \<times> world" where
  "search self fuzzy_match info w =
     (case validate_keys info (Inr (datadef_with_id self)) False of
        Inl e \<Rightarrow> (Inl e, w)
      | Inr u \<Rightarrow>
          (let (query, params) = search_query self fuzzy_match info;
               w1 = get_connection w
           in (case cursor_execute query params
                     (Select (table_name self)
                        (if info \<noteq> [] then snd (snd (search_loop self fuzzy_match info))
                         else []))
                     w1 of
                 (Inl e, w2) \<Rightarrow> (Inl e, w2)
               | (Inr r, w2) \<Rightarrow>
                   (case render_rows (map fst (datadef_with_id self)) (fetchall r) of
                      Inl e \<Rightarrow> (Inl e, commit w2)
                    | Inr books \<Rightarrow> (Inr books, commit w2)))))"

text \<open>
  A call \<open>method(*args, **kwargs)\<close> on an engine object, for a method whose signature is
  \<open>(self, p, **info)\<close> or \<open>(self, p=default, **info)\<close>: \<open>args\<close> are the positional
  arguments after the object, \<open>kwargs\<close> the keyword arguments. Python binds the
  parameter \<open>p\<close> to the positional argument or to the keyword argument of that name, and
  \<open>info\<close> to the remaining keyword arguments. The call raises TypeError when a keyword
  is given twice or is \<open>self\<close>, when \<open>p\<close> is given both ways, and when there is more than
  one positional argument. The result is the value bound to \<open>p\<close>, if any, and \<open>info\<close>.
\<close>

definition bind_call ::
  "string \<Rightarrow> py_value list \<Rightarrow> (string \<times> py_value) list \<Rightarrow>
   error + (py_value option \<times> (string \<times> py_value) list)" where
  "bind_call p args kwargs =
     (if \<not> distinct (map fst kwargs) \<or> ''self'' \<in> set (map fst kwargs) then Inl TypeError
      else case args of
        [] \<Rightarrow> Inr (map_of kwargs p, filter (\<lambda>kv. fst kv \<noteq> p) kwargs)
      | [a] \<Rightarrow> if p \<in> set (map fst kwargs) then Inl TypeError else Inr (Some a, kwargs)
      | a # b # rest \<Rightarrow> Inl TypeError)"


text \<open>\<open>def search(self, fuzzy_match=False, **info)\<close>\<close>

definition search_call ::
  "database \<Rightarrow> py_value list \<Rightarrow> (string \<times> py_value) list \<Rightarrow> world \<Rightarrow>
   (error + (string \<times> py_value) list list) \<times> world" where
  "search_call self args kwargs w =
     (case bind_call ''fuzzy_match'' args kwargs of
        Inl e \<Rightarrow> (Inl e, w)
      | Inr (flag, info) \<Rightarrow>
          search self (case flag of None \<Rightarrow> False | Some v \<Rightarrow> truthy v) info w)"

section \<open>Data access engine, cooperative variant (async_sqlitemplate.py)\<close>

text \<open>
  The cooperative engine keeps one connection in \<open>_conn\<close>, opened on first use; an
  \<open>await\<close> is a call that runs to its end. \<open>__init__\<close> opens nothing and creates no
  table: \<open>__aenter__\<close> does.
\<close>

definition get_conn :: "world \<Rightarrow> world" where
  "get_conn w = (if conn w then w else w\<lparr>trace := trace w @ [Connect], conn := True\<rparr>)"

definition get_cursor :: "world \<Rightarrow> world" where
  "get_cursor w = get_conn w"

text \<open>
  \<open>cursor.execute\<close> on the connection that is kept. sqlite3 opens a transaction before
  it runs an INSERT, UPDATE or DELETE whose text compiled, and async_sqlitemplate.py
  never commits: what these statements write stays in the transaction. A statement run
  outside a transaction is committed at once.
\<close>

definition cursor_execute_async ::
  "string \<Rightarrow> py_value list \<Rightarrow> statement \<Rightarrow> world \<Rightarrow> (error + result) \<times> world" where
  "cursor_execute_async query params st w =
     (let t = (transaction w \<or> (dml st \<and> compiles st (storage w)))
      in case cursor_execute query params st w of
           (Inl e, w') \<Rightarrow> (Inl e, w'\<lparr>transaction := t\<rparr>)
         | (Inr r, w') \<Rightarrow>
             (Inr r, w'\<lparr>transaction := t, saved := (if t then saved w' else storage w')\<rparr>))"

text \<open>
  \<open>close\<close>: closing the connection ends its transaction without a commit, so the tables
  are again as they were saved.
\<close>

definition close :: "world \<Rightarrow> world" where
  "close w =
     (if conn w then w\<lparr>conn := False, storage := saved w, transaction := False\<rparr> else w)"

definition AsyncDataBase_init :: "string \<Rightarrow> RowDef list \<Rightarrow> string \<Rightarrow> database" where
  "AsyncDataBase_init path td tablename =
     \<lparr>tabledef = td, datadef = as_dict_async td,
      datadef_with_id = dict_set (as_dict_async td) ''id'' TInt,
      table_name = tablename, dbpath = path\<rparr>"

definition dbcls_factory_async ::
  "RowDef list + cdef \<Rightarrow> string \<Rightarrow> string option \<Rightarrow> error + (string \<Rightarrow> database)" where
  "dbcls_factory_async td cls_name tablename =
     (let tablename' = (case tablename of None \<Rightarrow> cls_name | Some t \<Rightarrow> t)
      in case (case td of Inl d \<Rightarrow> Inr d | Inr c \<Rightarrow> TableDef_async c) of
           Inl e \<Rightarrow> Inl e
         | Inr d \<Rightarrow> Inr (\<lambda>path. AsyncDataBase_init path d tablename'))"

definition column_sql_async :: "RowDef \<Rightarrow> string" where
  "column_sql_async rd =
     name rd @ '' '' @ str_or_None (type_to_sqlitetype (type rd))
     @ (if unique rd then '' UNIQUE'' else [])
     @ (if nullable rd then [] else '' NOT NULL'')"

definition create_table_query_async :: "database \<Rightarrow> string" where
  "create_table_query_async self =
     nl @ spaces 16 @ ''CREATE TABLE IF NOT EXISTS '' @ table_name self @ '' ('' @ nl
     @ spaces 20 @ join '', '' (map column_sql_async (tabledef self)) @ '','' @ nl
     @ spaces 20 @ ''id INTEGER PRIMARY KEY AUTOINCREMENT'' @ nl
     @ spaces 16 @ '')'' @ nl
     @ spaces 16"

definition create_table_async :: "database \<Rightarrow> world \<Rightarrow> (error + unit) \<times> world" where
  "create_table_async self w =
     (let w1 = get_cursor w
      in case cursor_execute_async (create_table_query_async self) []
                (CreateTable (table_name self) (tabledef self)) w1 of
           (Inl e, w2) \<Rightarrow> (Inl e, w2)
         | (Inr r, w2) \<Rightarrow> (Inr (), w2))"

text \<open>\<open>__aenter__\<close> and \<open>__aexit__\<close>\<close>

definition aenter :: "database \<Rightarrow> world \<Rightarrow> (error + database) \<times> world" where
  "aenter self w =
     (case create_table_async self w of
        (Inl e, w') \<Rightarrow> (Inl e, w')
      | (Inr u, w') \<Rightarrow> (Inr self, w'))"

definition aexit :: "database \<Rightarrow> world \<Rightarrow> world" where
  "aexit self w = close w"

definition add_query_async :: "database \<Rightarrow> string" where
  "add_query_async self =
     nl @ spaces 16 @ ''INSERT INTO '' @ table_name self
     @ '' ('' @ join '', '' (map fst (datadef self)) @ '')'' @ nl
     @ spaces 16 @ ''VALUES ('' @ join '', '' (replicate (length (datadef self)) ''?'')
     @ '')'' @ nl
     @ spaces 16"

definition add_async ::
  "database \<Rightarrow> (string \<times> py_value) list \<Rightarrow> world \<Rightarrow> (error + int option) \<times> world" where
  "add_async self item w =
     (case validate_keys_async item (Inr (datadef self)) True of
        Inl e \<Rightarrow> (Inl e, w)
      | Inr u \<Rightarrow>
          (let w1 = get_cursor w
           in (case getitems item (map fst (datadef self)) of
                 Inl e \<Rightarrow> (Inl e, w1)
               | Inr params \<Rightarrow>
                   (case cursor_execute_async (add_query_async self) params
                           (Insert (table_name self) (map fst (datadef self)) params) w1 of
                      (Inl e, w2) \<Rightarrow> (Inl e, w2)
                    | (Inr r, w2) \<Rightarrow> (Inr (lastrowid r), w2)))))"

definition delete_query_async :: "database \<Rightarrow> string" where
  "delete_query_async self = ''DELETE FROM '' @ table_name self @ '' WHERE id = ?''"

definition delete_async :: "database \<Rightarrow> int \<Rightarrow> world \<Rightarrow> (error + unit) \<times> world" where
  "delete_async self item_id w =
     (let w1 = get_cursor w
      in case cursor_execute_async (delete_query_async self) [VInt item_id]
                (Delete (table_name self) item_id) w1 of
           (Inl e, w2) \<Rightarrow> (Inl e, w2)
         | (Inr r, w2) \<Rightarrow> (Inr (), w2))"

definition modify_query_async ::
  "database \<Rightarrow> int \<Rightarrow> (string \<times> py_value) list \<Rightarrow> string \<times> py_value list" where
  "modify_query_async self item_id info =
     (let (update_query, update_values) =
            foldl (\<lambda>(q, vs) (key, value). (q @ key @ '' = ?, '', vs @ [value]))
              (''UPDATE '' @ table_name self @ '' SET '', []) info
      in (rstrip update_query '', '' @ '' WHERE id = ?'', update_values @ [VInt item_id]))"

definition modify_async ::
  "database \<Rightarrow> int \<Rightarrow> (string \<times> py_value) list \<Rightarrow> world \<Rightarrow> (error + unit) \<times> world" where
  "modify_async self item_id info w =
     (if info = [] then (Inr (), w)
      else case validate_keys_async info (Inr (datadef self)) False of
        Inl e \<Rightarrow> (Inl e, w)
      | Inr u \<Rightarrow>
          (let (update_query, update_values) = modify_query_async self item_id info;
               w1 = get_cursor w
           in (case cursor_execute_async update_query update_values
                     (Update (table_name self) info item_id) w1 of
                 (Inl e, w2) \<Rightarrow> (Inl e, w2)
               | (Inr r, w2) \<Rightarrow> (Inr (), w2))))"

definition search_loop_async ::
  "database \<Rightarrow> bool \<Rightarrow> (string \<times> py_value) list \<Rightarrow>
   string list \<times> py_value list \<times> condition list" where
  "search_loop_async self fuzzy_match info =
     foldl (\<lambda>(conditions, params, conds) (key, value).
              if fuzzy_match \<and> map_of (datadef_with_id self) key = Some TStr
              then (conditions @ [key @ '' LIKE ?''],
                    params @ [VStr (''%'' @ py_str value @ ''%'')],
                    conds @ [Like key (VStr (''%'' @ py_str value @ ''%''))])
              else (conditions @ [key @ '' = ?''],
                    params @ [value],
                    conds @ [Equals key value]))
       ([], [], []) info"

definition search_query_async ::
  "database \<Rightarrow> bool \<Rightarrow> (string \<times> py_value) list \<Rightarrow> string \<times> py_value list" where
  "search_query_async self fuzzy_match info =
     (let query = ''SELECT * FROM '' @ table_name self
      in if info \<noteq> []
         then (let (conditions, params, conds) = search_loop_async self fuzzy_match info
               in (query @ '' WHERE '' @ join '' AND '' conditions, params))
         else (query, []))"

definition render_row_async ::
  "string list \<Rightarrow> py_value list \<Rightarrow> error + (string \<times> py_value) list" where
  "render_row_async keys r =
     (if length r < length keys then Inl IndexError else Inr (zip keys r))"

fun render_rows_async ::
  "string list \<Rightarrow> py_value list list \<Rightarrow> error + (string \<times> py_value) list list" where
  "render_rows_async keys [] = Inr []"
| "render_rows_async keys (r # rs) =
     (case render_row_async keys r of
        Inl e \<Rightarrow> Inl e
      | Inr book \<Rightarrow>
          (case render_rows_async keys rs of
             Inl e \<Rightarrow> Inl e
           | Inr books \<Rightarrow> Inr (book # books)))"

definition search_async ::
  "database \<Rightarrow> bool \<Rightarrow> (string \<times> py_value) list \<Rightarrow> world \<Rightarrow>
   (error + (string \<times> py_value) list list) \<times> world" where
  "search_async self fuzzy_match info w =
     (case validate_keys_async info (Inr (datadef_with_id self)) False of
        Inl e \<Rightarrow> (Inl e, w)
      | Inr u \<Rightarrow>
          (let (query, params) = search_query_async self fuzzy_match info;
               w1 = get_cursor w
           in (case cursor_execute_async query params
                     (Select (table_name self)
                        (if info \<noteq> []
                         then snd (snd (search_loop_async self fuzzy_match info))
                         else []))
                     w1 of
                 (Inl e, w2) \<Rightarrow> (Inl e, w2)
               | (Inr r, w2) \<Rightarrow>
                   (case render_rows_async (map fst (datadef_with_id self)) (fetchall r) of
                      Inl e \<Rightarrow> (Inl e, w2)
                    | Inr books \<Rightarrow> (Inr books, w2)))))"


text \<open>\<open>async def search(self, _fuzzy_match_=False, **info)\<close>\<close>

definition search_call_async ::
  "database \<Rightarrow> py_value list \<Rightarrow> (string \<times> py_value) list \<Rightarrow> world \<Rightarrow>
   (error + (string \<times> py_value) list list) \<times> world" where
  "search_call_async self args kwargs w =
     (case bind_call ''_fuzzy_match_'' args kwargs of
        Inl e \<Rightarrow> (Inl e, w)
      | Inr (flag, info) \<Rightarrow>
          search_async self (case flag of None \<Rightarrow> False | Some v \<Rightarrow> truthy v) info w)"

section \<open>Notions used in the statements\<close>

text \<open>The reference key set of \<open>validate_keys\<close>: the names of a TableDef, the keys of a Mapping.\<close>

definition reference_keys :: "RowDef list + (string \<times> 't) list \<Rightarrow> string set" where
  "reference_keys dt = (case dt of Inl td \<Rightarrow> set (map name td) | Inr m \<Rightarrow> set (map fst m))"

text \<open>A database file that holds no table, before any call to the storage engine.\<close>

definition fresh_world :: world where
  "fresh_world = \<lparr>storage = (\<lambda>tn. None), trace = [], conn = False,
                   saved = (\<lambda>tn. None), transaction = False\<rparr>"


text \<open>
  The column rendering in the spec's words: the name, the storage type of one of the four
  primitive types, the token UNIQUE when the field is unique, the token NOT NULL unless
  the field is nullable, separated by single spaces.
\<close>

fun spec_storage_type :: "py_type \<Rightarrow> string" where
  "spec_storage_type TStr = ''TEXT''"
| "spec_storage_type TInt = ''INTEGER''"
| "spec_storage_type TFloat = ''REAL''"
| "spec_storage_type TBytes = ''BLOB''"
| "spec_storage_type TNone = []"
| "spec_storage_type (TOther n) = []"

definition spec_column_tokens :: "RowDef \<Rightarrow> string list" where
  "spec_column_tokens rd =
     [name rd, spec_storage_type (type rd)]
     @ (if unique rd then [''UNIQUE''] else [])
     @ (if nullable rd then [] else [''NOT NULL''])"

definition spec_column :: "RowDef \<Rightarrow> string" where
  "spec_column rd = join '' '' (spec_column_tokens rd)"

text \<open>
  The predicate of a search filter in the spec's words: a substring match, with the value
  wrapped in percent signs, when the fuzzy flag is set and the filter's declared type is
  text; an exact-equality match otherwise. The select statement joins the predicates of
  the filters with AND and has no condition when there is no filter.
\<close>

definition spec_substring :: "database \<Rightarrow> bool \<Rightarrow> string \<Rightarrow> bool" where
  "spec_substring self fuzzy key \<longleftrightarrow> fuzzy \<and> map_of (datadef_with_id self) key = Some TStr"

definition spec_predicate :: "database \<Rightarrow> bool \<Rightarrow> string \<times> py_value \<Rightarrow> string" where
  "spec_predicate self fuzzy f =
     (if spec_substring self fuzzy (fst f) then fst f @ '' LIKE ?'' else fst f @ '' = ?'')"

definition spec_parameter :: "database \<Rightarrow> bool \<Rightarrow> string \<times> py_value \<Rightarrow> py_value" where
  "spec_parameter self fuzzy f =
     (if spec_substring self fuzzy (fst f) then VStr (''%'' @ py_str (snd f) @ ''%'')
      else snd f)"

definition spec_condition :: "database \<Rightarrow> bool \<Rightarrow> string \<times> py_value \<Rightarrow> condition" where
  "spec_condition self fuzzy f =
     (if spec_substring self fuzzy (fst f) then Like (fst f) (spec_parameter self fuzzy f)
      else Equals (fst f) (snd f))"

definition spec_select :: "database \<Rightarrow> bool \<Rightarrow> (string \<times> py_value) list \<Rightarrow> event" where
  "spec_select self fuzzy info =
     Execute (''SELECT * FROM '' @ table_name self
                @ (if info = [] then []
                   else '' WHERE '' @ join '' AND '' (map (spec_predicate self fuzzy) info)))
             (map (spec_parameter self fuzzy) info)"

text \<open>
  What running one statement leaves behind and what it answers: a statement that fails
  leaves the tables as they were.
\<close>

definition statement_effect :: "statement \<Rightarrow> storage \<Rightarrow> storage" where
  "statement_effect st s = (case run st s of Inl e \<Rightarrow> s | Inr sr \<Rightarrow> fst sr)"

definition statement_result :: "statement \<Rightarrow> storage \<Rightarrow> error + result" where
  "statement_result st s = (case run st s of Inl e \<Rightarrow> Inl e | Inr sr \<Rightarrow> Inr (snd sr))"

text \<open>The statements that the mutating operations hand to the engine.\<close>

definition add_statement :: "database \<Rightarrow> (string \<times> py_value) list \<Rightarrow> statement" where
  "add_statement self item =
     Insert (table_name self) (map fst (datadef self))
       (map (\<lambda>k. the (map_of item k)) (map fst (datadef self)))"

definition delete_statement :: "database \<Rightarrow> int \<Rightarrow> statement" where
  "delete_statement self item_id = Delete (table_name self) item_id"

definition modify_statement :: "database \<Rightarrow> int \<Rightarrow> (string \<times> py_value) list \<Rightarrow> statement" where
  "modify_statement self item_id info = Update (table_name self) info item_id"










section \<open>Properties\<close>

subsection \<open>Key validation\<close>

lemma validate_keys_full:
  "validate_keys d dt True =
     (if set (map fst d) = reference_keys dt then Inr ()
      else Inl (KeysValidationFailure KeysNotEqual))"
  unfolding validate_keys_def reference_keys_def Let_def by (cases dt) simp_all

lemma validate_keys_partial:
  "validate_keys d dt False =
     (if set (map fst d) \<subseteq> reference_keys dt then Inr ()
      else Inl (KeysValidationFailure (UnexpectedKeys (set (map fst d) - reference_keys dt))))"
  unfolding validate_keys_def reference_keys_def Let_def by (cases dt) simp_all

lemma validate_keys_async_eq: "validate_keys_async d dt fullmatch = validate_keys d dt fullmatch"
  unfolding validate_keys_def validate_keys_async_def ..

text \<open>
  C3. For every mapping \<open>d\<close> and reference \<open>dt\<close>, in both variants: with
  \<open>fullmatch\<close> true, \<open>validate_keys\<close> raises the keys-validation failure exactly when the
  key set of \<open>d\<close> differs from the reference key set; with \<open>fullmatch\<close> false it raises
  exactly when some key of \<open>d\<close> lies outside the reference key set, and the error then
  names exactly the keys of \<open>d\<close> outside the reference; in every other case it returns
  normally.
\<close>

theorem validate_keys_raises_iff:
  "(validate_keys d dt True = Inl e \<longleftrightarrow>
      e = KeysValidationFailure KeysNotEqual \<and> set (map fst d) \<noteq> reference_keys dt) \<and>
   (validate_keys d dt True = Inr u \<longleftrightarrow> set (map fst d) = reference_keys dt) \<and>
   (validate_keys d dt False = Inl e \<longleftrightarrow>
      e = KeysValidationFailure (UnexpectedKeys (set (map fst d) - reference_keys dt)) \<and>
      \<not> set (map fst d) \<subseteq> reference_keys dt) \<and>
   (validate_keys d dt False = Inr u \<longleftrightarrow> set (map fst d) \<subseteq> reference_keys dt) \<and>
   (validate_keys_async d dt True = Inl e \<longleftrightarrow>
      e = KeysValidationFailure KeysNotEqual \<and> set (map fst d) \<noteq> reference_keys dt) \<and>
   (validate_keys_async d dt True = Inr u \<longleftrightarrow> set (map fst d) = reference_keys dt) \<and>
   (validate_keys_async d dt False = Inl e \<longleftrightarrow>
      e = KeysValidationFailure (UnexpectedKeys (set (map fst d) - reference_keys dt)) \<and>
      \<not> set (map fst d) \<subseteq> reference_keys dt) \<and>
   (validate_keys_async d dt False = Inr u \<longleftrightarrow> set (map fst d) \<subseteq> reference_keys dt)"
proof -
  have full_l: "validate_keys d dt True = Inl e \<longleftrightarrow>
      e = KeysValidationFailure KeysNotEqual \<and> set (map fst d) \<noteq> reference_keys dt"
    unfolding validate_keys_full by (cases "set (map fst d) = reference_keys dt") auto
  have full_r: "validate_keys d dt True = Inr u \<longleftrightarrow> set (map fst d) = reference_keys dt"
    unfolding validate_keys_full by (cases "set (map fst d) = reference_keys dt") auto
  have part_l: "validate_keys d dt False = Inl e \<longleftrightarrow>
      e = KeysValidationFailure (UnexpectedKeys (set (map fst d) - reference_keys dt)) \<and>
      \<not> set (map fst d) \<subseteq> reference_keys dt"
    unfolding validate_keys_partial by (cases "set (map fst d) \<subseteq> reference_keys dt") auto
  have part_r: "validate_keys d dt False = Inr u \<longleftrightarrow> set (map fst d) \<subseteq> reference_keys dt"
    unfolding validate_keys_partial by (cases "set (map fst d) \<subseteq> reference_keys dt") auto
  show ?thesis
    unfolding validate_keys_async_eq using full_l full_r part_l part_r by blast
qed

theorem validate_keys_raises_iff_witness:
  "validate_keys [(''title'', VInt 1), (''isbn'', VInt 2), (''year'', VNone)]
     (Inr [(''title'', TStr), (''price'', TFloat)]) False
   = Inl (KeysValidationFailure (UnexpectedKeys {''isbn'', ''year''})) \<and>
   validate_keys_async [(''price'', VNone), (''title'', VInt 1)]
     (Inr [(''title'', TStr), (''price'', TFloat)]) True
   = Inr ()"
proof -
  let ?dt = "Inr [(''title'', TStr), (''price'', TFloat)] :: RowDef list + (string \<times> py_type) list"
  let ?d = "[(''title'', VInt 1), (''isbn'', VInt 2), (''year'', VNone)]"
  let ?d' = "[(''price'', VNone), (''title'', VInt 1)]"
  have k: "set (map fst ?d) - reference_keys ?dt = {''isbn'', ''year''}"
    by (simp add: reference_keys_def insert_Diff_if)
  have n: "\<not> set (map fst ?d) \<subseteq> reference_keys ?dt"
    by (simp add: reference_keys_def)
  have e: "set (map fst ?d') = reference_keys ?dt"
    by (simp add: reference_keys_def insert_commute)
  have a: "validate_keys ?d ?dt False
           = Inl (KeysValidationFailure (UnexpectedKeys {''isbn'', ''year''}))"
    using validate_keys_raises_iff
            [of ?d ?dt "KeysValidationFailure (UnexpectedKeys {''isbn'', ''year''})" "()"] k n
    by simp
  have b: "validate_keys_async ?d' ?dt True = Inr ()"
    using validate_keys_raises_iff [of ?d' ?dt "KeysValidationFailure KeysNotEqual" "()"] e
    by simp
  show ?thesis using a b by simp
qed

subsection \<open>Reserved names\<close>

lemma TableDef_mapping_async_Inr:
  "TableDef_mapping_async m self = Inr td \<Longrightarrow>
   td = self @ map (\<lambda>p. \<lparr>name = fst p, type = snd p, unique = False, nullable = False\<rparr>) m \<and>
   (\<forall>p \<in> set m. lower (fst p) \<notin> RESERVED_COLUMNS)"
proof (induction m arbitrary: self)
  case Nil
  then show ?case by simp
next
  case (Cons p m)
  obtain n t where p: "p = (n, t)" by (cases p)
  from Cons.prems p have ok: "lower n \<notin> RESERVED_COLUMNS"
    by (auto split: if_splits)
  with Cons.prems p have
    "TableDef_mapping_async m
       (self @ [\<lparr>name = n, type = t, unique = False, nullable = False\<rparr>]) = Inr td"
    by simp
  from Cons.IH [OF this] ok p show ?case by simp
qed

lemma TableDef_mapping_async_Inl:
  "\<exists>p \<in> set m. lower (fst p) \<in> RESERVED_COLUMNS \<Longrightarrow>
   \<exists>n. lower n \<in> RESERVED_COLUMNS \<and>
       TableDef_mapping_async m self
       = Inl (NameError (''name `'' @ n @ ''` is reserved for inner use''))"
proof (induction m arbitrary: self)
  case Nil
  then show ?case by simp
next
  case (Cons p m)
  obtain n t where p: "p = (n, t)" by (cases p)
  show ?case
  proof (cases "lower n \<in> RESERVED_COLUMNS")
    case True
    with p show ?thesis by auto
  next
    case False
    with Cons.prems p have "\<exists>q \<in> set m. lower (fst q) \<in> RESERVED_COLUMNS" by auto
    from Cons.IH [OF this] False p show ?thesis by simp
  qed
qed

lemma TableDef_iterable_async_Inr:
  "TableDef_iterable_async xs self = Inr td \<Longrightarrow>
   \<forall>rd \<in> set self. lower (name rd) \<notin> RESERVED_COLUMNS \<Longrightarrow>
   \<forall>rd \<in> set td. lower (name rd) \<notin> RESERVED_COLUMNS"
proof (induction xs self rule: TableDef_iterable_async.induct)
  case (1 self)
  then show ?case by simp
next
  case (2 rd rest self)
  from "2.prems"(1) have ok: "lower (name rd) \<notin> RESERVED_COLUMNS"
    by (auto simp: Let_def split: if_splits)
  with "2.prems"(1) have r: "TableDef_iterable_async rest (self @ [rd]) = Inr td"
    by (simp add: Let_def)
  from ok "2.prems"(2) have "\<forall>x \<in> set (self @ [rd]). lower (name x) \<notin> RESERVED_COLUMNS"
    by simp
  from "2.IH" [OF refl ok r this] show ?case .
next
  case (3 ty rest self)
  then show ?case by simp
qed

lemma TableDef_iterable_async_Inl:
  "\<exists>rd \<in> set rds. lower (name rd) \<in> RESERVED_COLUMNS \<Longrightarrow>
   \<exists>n. lower n \<in> RESERVED_COLUMNS \<and>
       TableDef_iterable_async (map ARowDef rds) self
       = Inl (NameError (''name `'' @ n @ ''` is reserved for inner use''))"
proof (induction rds arbitrary: self)
  case Nil
  then show ?case by simp
next
  case (Cons rd rds)
  show ?case
  proof (cases "lower (name rd) \<in> RESERVED_COLUMNS")
    case True
    then show ?thesis by (auto simp: Let_def)
  next
    case False
    with Cons.prems have "\<exists>x \<in> set rds. lower (name x) \<in> RESERVED_COLUMNS" by auto
    from Cons.IH [OF this] False show ?thesis by (simp add: Let_def)
  qed
qed

lemma TableDef_mapping_Inr:
  "TableDef_mapping m self = Inr td \<Longrightarrow>
   td = self @ map (\<lambda>p. \<lparr>name = fst p, type = snd p, unique = False, nullable = False\<rparr>) m \<and>
   (\<forall>p \<in> set m. lower (fst p) \<noteq> ''id'')"
proof (induction m arbitrary: self)
  case Nil
  then show ?case by simp
next
  case (Cons p m)
  obtain n t where p: "p = (n, t)" by (cases p)
  from Cons.prems p have ok: "lower n \<noteq> ''id''"
    by (auto split: if_splits)
  with Cons.prems p have
    "TableDef_mapping m (self @ [\<lparr>name = n, type = t, unique = False, nullable = False\<rparr>])
     = Inr td"
    by simp
  from Cons.IH [OF this] ok p show ?case by simp
qed

lemma TableDef_mapping_Inl:
  "\<exists>p \<in> set m. lower (fst p) = ''id'' \<Longrightarrow>
   TableDef_mapping m self = Inl (NameError ''name `id` is reserved for inner use'')"
proof (induction m arbitrary: self)
  case Nil
  then show ?case by simp
next
  case (Cons p m)
  obtain n t where p: "p = (n, t)" by (cases p)
  show ?case
  proof (cases "lower n = ''id''")
    case True
    with p show ?thesis by simp
  next
    case False
    with Cons.prems p have "\<exists>q \<in> set m. lower (fst q) = ''id''" by auto
    from Cons.IH [OF this] False p show ?thesis by simp
  qed
qed

lemma TableDef_async_no_reserved:
  assumes "TableDef_async c = Inr td"
  shows "\<forall>rd \<in> set td. lower (name rd) \<notin> RESERVED_COLUMNS"
proof (cases c)
  case (IsMapping m)
  with assms have "TableDef_mapping_async m [] = Inr td" by (simp add: TableDef_async_def)
  from TableDef_mapping_async_Inr [OF this] show ?thesis by auto
next
  case (IsIterable xs)
  with assms have "TableDef_iterable_async xs [] = Inr td" by (simp add: TableDef_async_def)
  from TableDef_iterable_async_Inr [OF this] show ?thesis by simp
next
  case Neither
  with assms show ?thesis by (simp add: TableDef_async_def)
qed

lemma lower_fuzzy: "lower ''_fuzzy_match_'' = ''_fuzzy_match_''"
  by (simp add: lower_def lower_char_def)

lemma lower_ID: "lower ''ID'' = ''id''"
  by (simp add: lower_def lower_char_def)

lemma lower_id: "lower ''id'' = ''id''"
  by (simp add: lower_def lower_char_def)

lemma lower_title: "lower ''title'' = ''title''"
  by (simp add: lower_def lower_char_def)

text \<open>
  C2, as stated, fails: the blocking variant builds a schema from a field map that holds
  the name \<open>_fuzzy_match_\<close>, which lies in the reserved set.
\<close>

theorem reserved_name_accepted_counterexample:
  "TableDef (IsMapping [(''_fuzzy_match_'', TStr)])
   = Inr [\<lparr>name = ''_fuzzy_match_'', type = TStr, unique = False, nullable = False\<rparr>] \<and>
   lower ''_fuzzy_match_'' \<in> {''id'', ''_fuzzy_match_''}"
  by (simp add: TableDef_def lower_fuzzy)

text \<open>
  C2, amended. In the cooperative variant, construction from a field map fails with the
  reserved-name error whenever some name, lowercased, is \<open>id\<close> or \<open>_fuzzy_match_\<close>, and
  so does construction from a sequence of FieldSpecs; every schema the cooperative
  variant constructs, on either path, holds no field whose lowercased name is reserved.
  In the blocking variant, construction from a field map fails with the reserved-name
  error whenever some name, lowercased, is \<open>id\<close>, and every schema it constructs from a
  field map holds no field whose lowercased name is \<open>id\<close>.
\<close>

theorem reserved_names_rejected:
  "((\<exists>p \<in> set m. lower (fst p) \<in> RESERVED_COLUMNS) \<longrightarrow>
      (\<exists>n. lower n \<in> RESERVED_COLUMNS \<and>
           TableDef_async (IsMapping m)
           = Inl (NameError (''name `'' @ n @ ''` is reserved for inner use'')))) \<and>
   ((\<exists>rd \<in> set rds. lower (name rd) \<in> RESERVED_COLUMNS) \<longrightarrow>
      (\<exists>n. lower n \<in> RESERVED_COLUMNS \<and>
           TableDef_async (IsIterable (map ARowDef rds))
           = Inl (NameError (''name `'' @ n @ ''` is reserved for inner use'')))) \<and>
   (TableDef_async c = Inr td \<longrightarrow> (\<forall>rd \<in> set td. lower (name rd) \<notin> RESERVED_COLUMNS)) \<and>
   ((\<exists>p \<in> set m. lower (fst p) = ''id'') \<longrightarrow>
      TableDef (IsMapping m) = Inl (NameError ''name `id` is reserved for inner use'')) \<and>
   (TableDef (IsMapping m) = Inr td' \<longrightarrow> (\<forall>rd \<in> set td'. lower (name rd) \<noteq> ''id''))"
proof -
  have a: "(\<exists>p \<in> set m. lower (fst p) \<in> RESERVED_COLUMNS) \<longrightarrow>
      (\<exists>n. lower n \<in> RESERVED_COLUMNS \<and>
           TableDef_async (IsMapping m)
           = Inl (NameError (''name `'' @ n @ ''` is reserved for inner use'')))"
    using TableDef_mapping_async_Inl [of m "[]"] by (simp add: TableDef_async_def)
  have b: "(\<exists>rd \<in> set rds. lower (name rd) \<in> RESERVED_COLUMNS) \<longrightarrow>
      (\<exists>n. lower n \<in> RESERVED_COLUMNS \<and>
           TableDef_async (IsIterable (map ARowDef rds))
           = Inl (NameError (''name `'' @ n @ ''` is reserved for inner use'')))"
    using TableDef_iterable_async_Inl [of rds "[]"] by (simp add: TableDef_async_def)
  have c: "TableDef_async c = Inr td \<longrightarrow>
      (\<forall>rd \<in> set td. lower (name rd) \<notin> RESERVED_COLUMNS)"
    using TableDef_async_no_reserved by blast
  have d: "(\<exists>p \<in> set m. lower (fst p) = ''id'') \<longrightarrow>
      TableDef (IsMapping m) = Inl (NameError ''name `id` is reserved for inner use'')"
    using TableDef_mapping_Inl [of m "[]"] by (simp add: TableDef_def)
  have e: "TableDef (IsMapping m) = Inr td' \<longrightarrow> (\<forall>rd \<in> set td'. lower (name rd) \<noteq> ''id'')"
  proof
    assume "TableDef (IsMapping m) = Inr td'"
    then have "TableDef_mapping m [] = Inr td'" by (simp add: TableDef_def)
    from TableDef_mapping_Inr [OF this] show "\<forall>rd \<in> set td'. lower (name rd) \<noteq> ''id''"
      by auto
  qed
  from a b c d e show ?thesis by blast
qed

theorem reserved_names_rejected_witness:
  "(\<exists>n. lower n \<in> RESERVED_COLUMNS \<and>
        TableDef_async (IsMapping [(''title'', TStr), (''_fuzzy_match_'', TInt)])
        = Inl (NameError (''name `'' @ n @ ''` is reserved for inner use''))) \<and>
   (\<exists>n. lower n \<in> RESERVED_COLUMNS \<and>
        TableDef_async (IsIterable (map ARowDef
          [\<lparr>name = ''ID'', type = TStr, unique = True, nullable = False\<rparr>]))
        = Inl (NameError (''name `'' @ n @ ''` is reserved for inner use''))) \<and>
   TableDef (IsMapping [(''title'', TStr), (''ID'', TInt)])
   = Inl (NameError ''name `id` is reserved for inner use'') \<and>
   lower ''title'' \<notin> RESERVED_COLUMNS"
proof -
  let ?m = "[(''title'', TStr), (''_fuzzy_match_'', TInt)]"
  let ?rds = "[\<lparr>name = ''ID'', type = TStr, unique = True, nullable = False\<rparr>]"
  let ?m' = "[(''title'', TStr), (''ID'', TInt)]"
  let ?td = "[\<lparr>name = ''title'', type = TStr, unique = False, nullable = False\<rparr>]"
  have h1: "\<exists>p \<in> set ?m. lower (fst p) \<in> RESERVED_COLUMNS"
    by (simp add: lower_fuzzy RESERVED_COLUMNS_def)
  have h2: "\<exists>rd \<in> set ?rds. lower (name rd) \<in> RESERVED_COLUMNS"
    by (simp add: lower_ID RESERVED_COLUMNS_def)
  have h3: "TableDef_async (IsMapping [(''title'', TStr)]) = Inr ?td"
    by (simp add: TableDef_async_def lower_title RESERVED_COLUMNS_def)
  have a: "\<exists>n. lower n \<in> RESERVED_COLUMNS \<and>
        TableDef_async (IsMapping ?m)
        = Inl (NameError (''name `'' @ n @ ''` is reserved for inner use''))"
    using reserved_names_rejected [of ?m ?rds "IsMapping [(''title'', TStr)]" ?td "[]"] h1
    by blast
  have b: "\<exists>n. lower n \<in> RESERVED_COLUMNS \<and>
        TableDef_async (IsIterable (map ARowDef ?rds))
        = Inl (NameError (''name `'' @ n @ ''` is reserved for inner use''))"
    using reserved_names_rejected [of ?m ?rds "IsMapping [(''title'', TStr)]" ?td "[]"] h2
    by blast
  have c: "lower ''title'' \<notin> RESERVED_COLUMNS"
    using reserved_names_rejected [of ?m ?rds "IsMapping [(''title'', TStr)]" ?td "[]"] h3
    by simp
  have h4: "\<exists>p \<in> set ?m'. lower (fst p) = ''id''"
    by (simp add: lower_ID)
  have d: "TableDef (IsMapping ?m') = Inl (NameError ''name `id` is reserved for inner use'')"
    using reserved_names_rejected [of ?m' ?rds "IsMapping [(''title'', TStr)]" ?td "[]"] h4
    by blast
  from a b c d show ?thesis by blast
qed

subsection \<open>Calls to the storage engine\<close>

lemma cursor_execute_eq:
  "cursor_execute query params st w
   = (statement_result st (storage w),
      w\<lparr>trace := trace w @ [Execute query params],
        storage := statement_effect st (storage w)\<rparr>)"
  by (simp add: cursor_execute_def statement_result_def statement_effect_def Let_def
        split: sum.splits prod.splits)

lemma cursor_execute_async_fst:
  "fst (cursor_execute_async query params st w) = statement_result st (storage w)"
  by (simp add: cursor_execute_async_def cursor_execute_eq Let_def split: sum.splits)

lemma cursor_execute_async_storage:
  "storage (snd (cursor_execute_async query params st w)) = statement_effect st (storage w)"
  by (simp add: cursor_execute_async_def cursor_execute_eq Let_def split: sum.splits)

lemma cursor_execute_async_trace:
  "trace (snd (cursor_execute_async query params st w)) = trace w @ [Execute query params]"
  by (simp add: cursor_execute_async_def cursor_execute_eq Let_def split: sum.splits)

lemma cursor_execute_async_conn:
  "conn (snd (cursor_execute_async query params st w)) = conn w"
  by (simp add: cursor_execute_async_def cursor_execute_eq Let_def split: sum.splits)


lemma storage_get_conn: "storage (get_conn w) = storage w"
  by (simp add: get_conn_def)


lemma conn_get_conn: "conn (get_conn w)"
  by (simp add: get_conn_def)


lemma statement_result_Inl:
  "statement_result st s = Inl e \<Longrightarrow> run st s = Inl e \<and> statement_effect st s = s"
  by (cases "run st s") (auto simp: statement_result_def statement_effect_def)

lemma run_Inl: "run st s = Inl e \<Longrightarrow> statement_result st s = Inl e \<and> statement_effect st s = s"
  by (simp add: statement_result_def statement_effect_def)

lemma run_Inr:
  "run st s = Inr (s', r) \<Longrightarrow> statement_result st s = Inr r \<and> statement_effect st s = s'"
  by (simp add: statement_result_def statement_effect_def)

lemma executed_fst:
  "fst (case x of (Inl e, w2) \<Rightarrow> (Inl e, w2) | (Inr r, w2) \<Rightarrow> (Inr (g r), w2))
   = (case fst x of Inl e \<Rightarrow> Inl e | Inr r \<Rightarrow> Inr (g r))"
  by (simp split: prod.splits sum.splits)

lemma executed_snd:
  "snd (case x of (Inl e, w2) \<Rightarrow> (Inl e, w2) | (Inr r, w2) \<Rightarrow> (Inr (g r), w2)) = snd x"
  by (simp split: prod.splits sum.splits)

lemma rendered_fst:
  "fst (case x of
          (Inl e, w2) \<Rightarrow> (Inl e, w2)
        | (Inr r, w2) \<Rightarrow> (case h r of Inl e \<Rightarrow> (Inl e, w2) | Inr b \<Rightarrow> (Inr b, w2)))
   = (case fst x of Inl e \<Rightarrow> Inl e | Inr r \<Rightarrow> h r)"
  by (simp split: prod.splits sum.splits)

lemma rendered_snd:
  "snd (case x of
          (Inl e, w2) \<Rightarrow> (Inl e, w2)
        | (Inr r, w2) \<Rightarrow> (case h r of Inl e \<Rightarrow> (Inl e, w2) | Inr b \<Rightarrow> (Inr b, w2)))
   = snd x"
  by (simp split: prod.splits sum.splits)

lemma select_effect: "statement_effect (Select tn conds) s = s"
  by (simp add: statement_effect_def split: option.splits)

text \<open>How Python binds the calls.\<close>

lemma bind_positional:
  "distinct (map fst kwargs) \<Longrightarrow> ''self'' \<notin> set (map fst kwargs) \<Longrightarrow>
   p \<notin> set (map fst kwargs) \<Longrightarrow>
   bind_call p [a] kwargs = Inr (Some a, kwargs)"
  by (simp add: bind_call_def)

lemma bind_default:
  assumes "distinct (map fst kwargs)" and "''self'' \<notin> set (map fst kwargs)"
    and "p \<notin> set (map fst kwargs)"
  shows "bind_call p [] kwargs = Inr (None, kwargs)"
proof -
  from assms(3) have "map_of kwargs p = None" by (simp add: map_of_eq_None_iff)
  moreover from assms(3) have "filter (\<lambda>kv. fst kv \<noteq> p) kwargs = kwargs"
    by (induction kwargs) auto
  ultimately show ?thesis using assms(1,2) by (simp add: bind_call_def)
qed

lemma bind_keyword:
  assumes "distinct (map fst (before @ after))" and "''self'' \<notin> set (map fst (before @ after))"
    and "p \<notin> set (map fst (before @ after))" and "p \<noteq> ''self''"
  shows "bind_call p [] (before @ (p, v) # after) = Inr (Some v, before @ after)"
proof -
  from assms(3) have nb: "p \<notin> set (map fst before)" and na: "p \<notin> set (map fst after)"
    by simp_all
  from nb have "map_of before p = None" by (simp add: map_of_eq_None_iff)
  then have m: "map_of (before @ (p, v) # after) p = Some v"
    by (simp add: map_add_def)
  from nb have fb: "filter (\<lambda>kv. fst kv \<noteq> p) before = before"
    by (induction before) auto
  from na have fa: "filter (\<lambda>kv. fst kv \<noteq> p) after = after"
    by (induction after) auto
  have d: "distinct (map fst (before @ (p, v) # after))"
    using assms(1) nb na by auto
  have s: "''self'' \<notin> set (map fst (before @ (p, v) # after))"
    using assms(2,4) by auto
  show ?thesis
    unfolding bind_call_def using d s m fb fa by simp
qed


lemma bind_twice:
  "p \<in> set (map fst kwargs) \<Longrightarrow> bind_call p [a] kwargs = Inl TypeError"
  by (simp add: bind_call_def)

lemma render_row_async_eq: "render_row_async = render_row"
  by (intro ext) (simp add: render_row_async_def render_row_def)

lemma render_rows_async_eq: "render_rows_async keys rs = render_rows keys rs"
  by (induction rs) (simp_all add: render_row_async_eq split: sum.splits)






subsection \<open>The table of an engine object\<close>

lemma dict_set_keys: "fst ` set (dict_set d k v) = insert k (fst ` set d)"
proof (induction d)
  case Nil
  then show ?case by simp
next
  case (Cons p d)
  obtain k' v' where p: "p = (k', v')" by (cases p)
  show ?case
  proof (cases "k' = k")
    case True
    with p show ?thesis by simp
  next
    case False
    with p Cons.IH show ?thesis by (simp add: insert_commute)
  qed
qed





















subsection \<open>A schema argument that is neither a Mapping nor an Iterable\<close>

lemma create_table_Nil:
  "tabledef self = [] \<Longrightarrow>
   create_table self w
   = (Inl (StorageError ''syntax error''),
      w\<lparr>trace := trace w @ [Connect, Execute (create_table_query self) []]\<rparr>)"
  by (simp add: create_table_def get_connection_def cursor_execute_def Let_def)

lemma create_table_async_Nil:
  "tabledef self = [] \<Longrightarrow>
   fst (create_table_async self w) = Inl (StorageError ''syntax error'') \<and>
   storage (snd (create_table_async self w)) = storage w"
proof -
  assume e: "tabledef self = []"
  let ?st = "CreateTable (table_name self) (tabledef self)"
  let ?x = "cursor_execute_async (create_table_query_async self) [] ?st (get_cursor w)"
  have r: "run ?st (storage (get_cursor w)) = Inl (StorageError ''syntax error'')"
    using e by simp
  from run_Inl [OF r]
  have a: "fst ?x = Inl (StorageError ''syntax error'')"
    and b: "storage (snd ?x) = storage w"
    by (simp_all add: cursor_execute_async_fst cursor_execute_async_storage get_cursor_def
          storage_get_conn)
  obtain y w' where x: "?x = (y, w')" by (cases ?x)
  with a b have "y = Inl (StorageError ''syntax error'')" and "storage w' = storage w"
    by simp_all
  with x show ?thesis by (simp add: create_table_async_def Let_def)
qed

lemma aenter_eq:
  "fst (aenter self w) = (case fst (create_table_async self w) of Inl e \<Rightarrow> Inl e | Inr u \<Rightarrow> Inr self)
   \<and> snd (aenter self w) = snd (create_table_async self w)"
  by (simp add: aenter_def split: prod.splits sum.splits)

text \<open>
  C10, as stated, fails: an engine cannot be built from the empty schema. The blocking
  variant's class, made by the factory from the integer argument, raises a storage error
  in its constructor, and the database file holds no table afterwards.
\<close>

theorem engine_on_empty_schema_counterexample:
  "(case dbcls_factory (Inr Neither) ''BookDB'' (Some ''books'') of
      Inl e \<Rightarrow> False
    | Inr BookDB \<Rightarrow>
        fst (BookDB ''books.db'' fresh_world) = Inl (StorageError ''syntax error'') \<and>
        storage (snd (BookDB ''books.db'' fresh_world)) ''books'' = None)"
  by (simp add: dbcls_factory_def TableDef_def DataBase_init_def create_table_Nil
        fresh_world_def)

text \<open>
  C10, amended. In both variants, if the schema argument is neither a Mapping nor an
  Iterable, construction raises no error and yields an empty schema with zero fields. The
  field map derived from it is empty and the field map with id has the single key id. The
  create-table statement rendered from it has nothing before the comma that precedes the
  id column; the storage engine rejects it, so the blocking engine's constructor and the
  cooperative engine's activation raise a storage error and leave the tables as they were.
\<close>

theorem neither_yields_empty_schema:
  "TableDef Neither = Inr [] \<and>
   TableDef_async Neither = Inr [] \<and>
   as_dict [] = [] \<and>
   as_dict_async [] = [] \<and>
   dict_set (as_dict []) ''id'' TInt = [(''id'', TInt)] \<and>
   create_table_query \<lparr>tabledef = [], datadef = [], datadef_with_id = [(''id'', TInt)],
                        table_name = tn, dbpath = path\<rparr>
   = nl @ spaces 16 @ ''CREATE TABLE IF NOT EXISTS '' @ tn @ '' ('' @ nl
     @ spaces 20 @ '','' @ nl
     @ spaces 20 @ ''id INTEGER PRIMARY KEY AUTOINCREMENT'' @ nl
     @ spaces 16 @ '')'' @ nl @ spaces 16 \<and>
   fst (DataBase_init path [] tn w) = Inl (StorageError ''syntax error'') \<and>
   storage (snd (DataBase_init path [] tn w)) = storage w \<and>
   fst (aenter (AsyncDataBase_init path [] tn) w) = Inl (StorageError ''syntax error'') \<and>
   storage (snd (aenter (AsyncDataBase_init path [] tn) w)) = storage w"
proof -
  have a: "TableDef Neither = Inr []" by (simp add: TableDef_def)
  have b: "TableDef_async Neither = Inr []" by (simp add: TableDef_async_def)
  have c: "as_dict [] = []" "as_dict_async [] = []"
    by (simp_all add: as_dict_def as_dict_async_def)
  have d: "dict_set (as_dict []) ''id'' TInt = [(''id'', TInt)]" by (simp add: as_dict_def)
  have e: "create_table_query \<lparr>tabledef = [], datadef = [], datadef_with_id = [(''id'', TInt)],
                        table_name = tn, dbpath = path\<rparr>
   = nl @ spaces 16 @ ''CREATE TABLE IF NOT EXISTS '' @ tn @ '' ('' @ nl
     @ spaces 20 @ '','' @ nl
     @ spaces 20 @ ''id INTEGER PRIMARY KEY AUTOINCREMENT'' @ nl
     @ spaces 16 @ '')'' @ nl @ spaces 16"
    by (simp add: create_table_query_def)
  have f: "fst (DataBase_init path [] tn w) = Inl (StorageError ''syntax error'')"
          "storage (snd (DataBase_init path [] tn w)) = storage w"
    by (simp_all add: DataBase_init_def create_table_Nil)
  have g: "fst (aenter (AsyncDataBase_init path [] tn) w) = Inl (StorageError ''syntax error'')"
          "storage (snd (aenter (AsyncDataBase_init path [] tn) w)) = storage w"
    using create_table_async_Nil [of "AsyncDataBase_init path [] tn" w]
    by (simp_all add: aenter_eq AsyncDataBase_init_def)
  from a b c d e f g show ?thesis by simp
qed

theorem neither_yields_empty_schema_witness:
  "fst (DataBase_init ''books.db'' [] ''books'' fresh_world) = Inl (StorageError ''syntax error'') \<and>
   storage (snd (DataBase_init ''books.db'' [] ''books'' fresh_world)) ''books'' = None \<and>
   fst (aenter (AsyncDataBase_init ''books.db'' [] ''books'') fresh_world)
   = Inl (StorageError ''syntax error'')"
  using neither_yields_empty_schema [of "''books''" "''books.db''" fresh_world]
  by (simp add: fresh_world_def)

subsection \<open>The create-table statement\<close>

lemma column_sql_spec: "primitive (type rd) \<Longrightarrow> column_sql rd = spec_column rd"
  by (cases "type rd")
     (simp_all add: column_sql_def spec_column_def spec_column_tokens_def)

lemma column_sql_async_eq: "column_sql_async = column_sql"
  by (rule ext) (simp add: column_sql_async_def column_sql_def)

lemma create_table_query_async_eq: "create_table_query_async self = create_table_query self"
  by (simp add: create_table_query_async_def create_table_query_def column_sql_async_eq)

lemma map_column_sql_spec:
  "\<forall>rd \<in> set td. primitive (type rd) \<Longrightarrow> map column_sql td = map spec_column td"
  by (simp add: column_sql_spec)

lemma create_table_trace:
  "trace (snd (create_table self w)) = trace w @ [Connect, Execute (create_table_query self) []]"
  by (simp add: create_table_def get_connection_def cursor_execute_eq commit_def Let_def
        split: sum.splits)

lemma create_table_async_trace:
  "trace (snd (create_table_async self w))
   = trace (get_conn w) @ [Execute (create_table_query_async self) []]"
  unfolding create_table_async_def Let_def executed_snd
  by (simp add: cursor_execute_async_trace get_cursor_def)

lemma aenter_trace:
  "trace (snd (aenter self w))
   = trace (get_conn w) @ [Execute (create_table_query_async self) []]"
  by (simp add: aenter_eq create_table_async_trace)

text \<open>
  C7. For every schema over the four primitive types, in both variants, createTable
  executes a single statement, whose text is \<open>CREATE TABLE IF NOT EXISTS\<close>, the table
  name, and in parentheses one column per field in schema order and then the column
  \<open>id INTEGER PRIMARY KEY AUTOINCREMENT\<close>; a field's column is its name, its storage
  type (TEXT for str, INTEGER for int, REAL for float, BLOB for bytes), the token UNIQUE
  exactly when the field is unique, and the token NOT NULL exactly when it is not
  nullable. The blocking variant executes it on a new connection, the cooperative variant
  on the connection it keeps, from \<open>create_table\<close> and from \<open>__aenter__\<close>.
\<close>

theorem create_table_statement:
  assumes "\<forall>rd \<in> set (tabledef self). primitive (type rd)"
  shows "create_table_query self
         = nl @ spaces 16 @ ''CREATE TABLE IF NOT EXISTS '' @ table_name self @ '' ('' @ nl
           @ spaces 20 @ join '', '' (map spec_column (tabledef self)) @ '','' @ nl
           @ spaces 20 @ ''id INTEGER PRIMARY KEY AUTOINCREMENT'' @ nl
           @ spaces 16 @ '')'' @ nl @ spaces 16 \<and>
         create_table_query_async self = create_table_query self \<and>
         trace (snd (create_table self w))
         = trace w @ [Connect, Execute (create_table_query self) []] \<and>
         trace (snd (create_table_async self w))
         = trace (get_conn w) @ [Execute (create_table_query_async self) []] \<and>
         trace (snd (aenter self w))
         = trace (get_conn w) @ [Execute (create_table_query_async self) []] \<and>
         (\<forall>rd \<in> set (tabledef self).
            take 2 (spec_column_tokens rd) = [name rd, spec_storage_type (type rd)] \<and>
            (''UNIQUE'' \<in> set (drop 2 (spec_column_tokens rd)) \<longleftrightarrow> unique rd) \<and>
            (''NOT NULL'' \<in> set (drop 2 (spec_column_tokens rd)) \<longleftrightarrow> \<not> nullable rd)) \<and>
         spec_storage_type TStr = ''TEXT'' \<and> spec_storage_type TInt = ''INTEGER'' \<and>
         spec_storage_type TFloat = ''REAL'' \<and> spec_storage_type TBytes = ''BLOB''"
proof -
  have a: "create_table_query self
         = nl @ spaces 16 @ ''CREATE TABLE IF NOT EXISTS '' @ table_name self @ '' ('' @ nl
           @ spaces 20 @ join '', '' (map spec_column (tabledef self)) @ '','' @ nl
           @ spaces 20 @ ''id INTEGER PRIMARY KEY AUTOINCREMENT'' @ nl
           @ spaces 16 @ '')'' @ nl @ spaces 16"
    unfolding create_table_query_def map_column_sql_spec [OF assms] ..
  have b: "\<forall>rd \<in> set (tabledef self).
            take 2 (spec_column_tokens rd) = [name rd, spec_storage_type (type rd)] \<and>
            (''UNIQUE'' \<in> set (drop 2 (spec_column_tokens rd)) \<longleftrightarrow> unique rd) \<and>
            (''NOT NULL'' \<in> set (drop 2 (spec_column_tokens rd)) \<longleftrightarrow> \<not> nullable rd)"
    by (simp add: spec_column_tokens_def)
  from a b create_table_query_async_eq [of self] create_table_trace [of self w]
    create_table_async_trace [of self w] aenter_trace [of self w]
  show ?thesis by simp
qed

theorem create_table_statement_witness:
  "create_table_query
     \<lparr>tabledef = [\<lparr>name = ''title'', type = TStr, unique = False, nullable = False\<rparr>,
                  \<lparr>name = ''isbn'', type = TStr, unique = True, nullable = False\<rparr>,
                  \<lparr>name = ''price'', type = TFloat, unique = False, nullable = True\<rparr>],
      datadef = [(''title'', TStr), (''isbn'', TStr), (''price'', TFloat)],
      datadef_with_id = [(''title'', TStr), (''isbn'', TStr), (''price'', TFloat), (''id'', TInt)],
      table_name = ''books'', dbpath = ''books.db''\<rparr>
   = nl @ spaces 16 @ ''CREATE TABLE IF NOT EXISTS books ('' @ nl
     @ spaces 20 @ ''title TEXT NOT NULL, isbn TEXT UNIQUE NOT NULL, price REAL,'' @ nl
     @ spaces 20 @ ''id INTEGER PRIMARY KEY AUTOINCREMENT'' @ nl
     @ spaces 16 @ '')'' @ nl @ spaces 16"
proof -
  let ?self = "\<lparr>tabledef = [\<lparr>name = ''title'', type = TStr, unique = False, nullable = False\<rparr>,
                  \<lparr>name = ''isbn'', type = TStr, unique = True, nullable = False\<rparr>,
                  \<lparr>name = ''price'', type = TFloat, unique = False, nullable = True\<rparr>],
      datadef = [(''title'', TStr), (''isbn'', TStr), (''price'', TFloat)],
      datadef_with_id = [(''title'', TStr), (''isbn'', TStr), (''price'', TFloat), (''id'', TInt)],
      table_name = ''books'', dbpath = ''books.db''\<rparr>"
  have h: "\<forall>rd \<in> set (tabledef ?self). primitive (type rd)" by simp
  from create_table_statement [OF h, of fresh_world]
  show ?thesis by (simp add: spec_column_def spec_column_tokens_def)
qed

subsection \<open>The select statement\<close>

lemma search_loop_step:
  "(\<lambda>(conditions, params, conds) (key, value).
              if fuzzy_match \<and> map_of (datadef_with_id self) key = Some TStr
              then (conditions @ [key @ '' LIKE ?''],
                    params @ [VStr (''%'' @ py_str value @ ''%'')],
                    conds @ [Like key (VStr (''%'' @ py_str value @ ''%''))])
              else (conditions @ [key @ '' = ?''],
                    params @ [value],
                    conds @ [Equals key value]))
   = (\<lambda>acc f. (fst acc @ [spec_predicate self fuzzy_match f],
                  fst (snd acc) @ [spec_parameter self fuzzy_match f],
                  snd (snd acc) @ [spec_condition self fuzzy_match f]))"
  by (intro ext)
     (simp add: spec_predicate_def spec_parameter_def spec_condition_def spec_substring_def
        split: prod.splits)

lemma search_loop_foldl:
  "foldl (\<lambda>acc f. (fst acc @ [spec_predicate self fuzzy_match f],
                     fst (snd acc) @ [spec_parameter self fuzzy_match f],
                     snd (snd acc) @ [spec_condition self fuzzy_match f]))
       (cs, ps, ds) info
   = (cs @ map (spec_predicate self fuzzy_match) info,
      ps @ map (spec_parameter self fuzzy_match) info,
      ds @ map (spec_condition self fuzzy_match) info)"
  by (induction info arbitrary: cs ps ds) simp_all

lemma search_loop_map:
  "search_loop self fuzzy_match info
   = (map (spec_predicate self fuzzy_match) info,
      map (spec_parameter self fuzzy_match) info,
      map (spec_condition self fuzzy_match) info)"
  unfolding search_loop_def search_loop_step search_loop_foldl by simp

lemma search_loop_async_eq: "search_loop_async = search_loop"
  by (intro ext) (simp add: search_loop_async_def search_loop_def)

lemma search_query_map:
  "search_query self fuzzy_match info
   = (''SELECT * FROM '' @ table_name self
        @ (if info = [] then []
           else '' WHERE '' @ join '' AND '' (map (spec_predicate self fuzzy_match) info)),
      map (spec_parameter self fuzzy_match) info)"
  by (simp add: search_query_def search_loop_map Let_def)

lemma search_query_async_eq: "search_query_async = search_query"
  by (intro ext) (simp add: search_query_async_def search_query_def search_loop_async_eq Let_def)


lemma search_conditions:
  "(if info \<noteq> [] then snd (snd (search_loop self fuzzy info)) else [])
   = map (spec_condition self fuzzy) info"
  by (simp add: search_loop_map)

lemma search_eq:
  assumes "set (map fst info) \<subseteq> set (map fst (datadef_with_id self))"
  shows "fst (search self fuzzy info w)
         = (case statement_result
                   (Select (table_name self) (map (spec_condition self fuzzy) info)) (storage w) of
              Inl e \<Rightarrow> Inl e
            | Inr r \<Rightarrow> render_rows (map fst (datadef_with_id self)) (fetchall r))"
    and "trace (snd (search self fuzzy info w)) = trace w @ [Connect, spec_select self fuzzy info]"
    and "storage (snd (search self fuzzy info w)) = storage w"
proof -
  have v: "validate_keys info (Inr (datadef_with_id self) :: RowDef list + (string \<times> py_type) list)
             False = Inr ()"
    using assms by (simp add: validate_keys_partial reference_keys_def)
  let ?st = "Select (table_name self) (map (spec_condition self fuzzy) info)"
  let ?w = "w\<lparr>trace := trace w @ [Connect, spec_select self fuzzy info]\<rparr>"
  have a: "search self fuzzy info w
           = (case statement_result ?st (storage w) of
                Inl e \<Rightarrow> (Inl e, ?w)
              | Inr r \<Rightarrow>
                  (case render_rows (map fst (datadef_with_id self)) (fetchall r) of
                     Inl e \<Rightarrow> (Inl e, commit ?w)
                   | Inr books \<Rightarrow> (Inr books, commit ?w)))"
    unfolding search_def v search_conditions
    by (simp add: cursor_execute_eq get_connection_def search_query_map spec_select_def
          select_effect Let_def split: sum.splits)
  show "fst (search self fuzzy info w)
         = (case statement_result ?st (storage w) of
              Inl e \<Rightarrow> Inl e
            | Inr r \<Rightarrow> render_rows (map fst (datadef_with_id self)) (fetchall r))"
    unfolding a by (simp split: sum.splits)
  show "trace (snd (search self fuzzy info w)) = trace w @ [Connect, spec_select self fuzzy info]"
    unfolding a by (simp add: commit_def split: sum.splits)
  show "storage (snd (search self fuzzy info w)) = storage w"
    unfolding a by (simp add: commit_def split: sum.splits)
qed

lemma search_async_eq:
  assumes "set (map fst info) \<subseteq> set (map fst (datadef_with_id self))"
  shows "fst (search_async self fuzzy info w)
         = (case statement_result
                   (Select (table_name self) (map (spec_condition self fuzzy) info)) (storage w) of
              Inl e \<Rightarrow> Inl e
            | Inr r \<Rightarrow> render_rows_async (map fst (datadef_with_id self)) (fetchall r))"
    and "trace (snd (search_async self fuzzy info w))
         = trace (get_conn w) @ [spec_select self fuzzy info]"
    and "storage (snd (search_async self fuzzy info w)) = storage w"
proof -
  have v: "validate_keys info (Inr (datadef_with_id self) :: RowDef list + (string \<times> py_type) list)
             False = Inr ()"
    using assms by (simp add: validate_keys_partial reference_keys_def)
  let ?st = "Select (table_name self) (map (spec_condition self fuzzy) info)"
  obtain q ps where q: "search_query self fuzzy info = (q, ps)"
    by (cases "search_query self fuzzy info")
  then have e: "spec_select self fuzzy info = Execute q ps"
    by (simp add: search_query_map spec_select_def)
  let ?x = "cursor_execute_async q ps ?st (get_conn w)"
  have a: "search_async self fuzzy info w
           = (case ?x of
                (Inl e, w2) \<Rightarrow> (Inl e, w2)
              | (Inr r, w2) \<Rightarrow>
                  (case render_rows_async (map fst (datadef_with_id self)) (fetchall r) of
                     Inl e \<Rightarrow> (Inl e, w2)
                   | Inr books \<Rightarrow> (Inr books, w2)))"
    unfolding search_async_def validate_keys_async_eq v search_query_async_eq
      search_loop_async_eq search_conditions q
    by (simp add: get_cursor_def Let_def)
  show "fst (search_async self fuzzy info w)
         = (case statement_result ?st (storage w) of
              Inl e \<Rightarrow> Inl e
            | Inr r \<Rightarrow> render_rows_async (map fst (datadef_with_id self)) (fetchall r))"
    unfolding a rendered_fst by (simp add: cursor_execute_async_fst storage_get_conn)
  show "trace (snd (search_async self fuzzy info w))
         = trace (get_conn w) @ [spec_select self fuzzy info]"
    unfolding a rendered_snd e by (simp add: cursor_execute_async_trace)
  show "storage (snd (search_async self fuzzy info w)) = storage w"
    unfolding a rendered_snd
    by (simp add: cursor_execute_async_storage storage_get_conn select_effect)
qed


lemma search_call_positional:
  assumes "distinct (map fst info)" and "''self'' \<notin> set (map fst info)"
    and "''fuzzy_match'' \<notin> set (map fst info)"
  shows "search_call self [flag] info w = search self (truthy flag) info w"
  by (simp add: search_call_def bind_positional [OF assms])

lemma search_call_keyword:
  assumes "distinct (map fst (before @ after))"
    and "''self'' \<notin> set (map fst (before @ after))"
    and "''fuzzy_match'' \<notin> set (map fst (before @ after))"
  shows "search_call self [] (before @ (''fuzzy_match'', flag) # after) w
         = search self (truthy flag) (before @ after) w"
  by (simp add: search_call_def bind_keyword [OF assms])

lemma search_call_default:
  assumes "distinct (map fst info)" and "''self'' \<notin> set (map fst info)"
    and "''fuzzy_match'' \<notin> set (map fst info)"
  shows "search_call self [] info w = search self False info w"
  by (simp add: search_call_def bind_default [OF assms])

lemma search_call_async_positional:
  assumes "distinct (map fst info)" and "''self'' \<notin> set (map fst info)"
    and "''_fuzzy_match_'' \<notin> set (map fst info)"
  shows "search_call_async self [flag] info w = search_async self (truthy flag) info w"
  by (simp add: search_call_async_def bind_positional [OF assms])

lemma search_call_async_keyword:
  assumes "distinct (map fst (before @ after))"
    and "''self'' \<notin> set (map fst (before @ after))"
    and "''_fuzzy_match_'' \<notin> set (map fst (before @ after))"
  shows "search_call_async self [] (before @ (''_fuzzy_match_'', flag) # after) w
         = search_async self (truthy flag) (before @ after) w"
  by (simp add: search_call_async_def bind_keyword [OF assms])

lemma search_call_async_default:
  assumes "distinct (map fst info)" and "''self'' \<notin> set (map fst info)"
    and "''_fuzzy_match_'' \<notin> set (map fst info)"
  shows "search_call_async self [] info w = search_async self False info w"
  by (simp add: search_call_async_def bind_default [OF assms])




subsection \<open>How the operations reach the storage engine\<close>

lemma getitems_eq:
  "set keys \<subseteq> set (map fst item) \<Longrightarrow>
   getitems item keys = Inr (map (\<lambda>k. the (map_of item k)) keys)"
proof (induction keys)
  case Nil
  then show ?case by simp
next
  case (Cons k keys)
  from Cons.prems have "k \<in> fst ` set item" by simp
  then obtain v where v: "map_of item k = Some v"
    by (metis domD dom_map_of_conv_image_fst)
  from Cons.prems have "set keys \<subseteq> set (map fst item)" by simp
  from Cons.IH [OF this] v show ?case by simp
qed

lemma add_rejected:
  "validate_keys item (Inr (datadef self) :: RowDef list + (string \<times> py_type) list) True = Inl e
   \<Longrightarrow> add self item w = (Inl e, w)"
  by (simp add: add_def)

lemma add_accepted:
  assumes "set (map fst item) = set (map fst (datadef self))"
  shows "fst (add self item w)
         = (case statement_result (add_statement self item) (storage w) of
              Inl e \<Rightarrow> Inl e
            | Inr r \<Rightarrow> Inr (lastrowid r))"
    and "trace (snd (add self item w))
         = trace w @ [Connect, Execute (add_query self)
                                 (map (\<lambda>k. the (map_of item k)) (map fst (datadef self)))]"
    and "storage (snd (add self item w))
         = statement_effect (add_statement self item) (storage w)"
    and "saved (snd (add self item w))
         = (case statement_result (add_statement self item) (storage w) of
              Inl e \<Rightarrow> saved w
            | Inr r \<Rightarrow> statement_effect (add_statement self item) (storage w))"
proof -
  have v: "validate_keys item (Inr (datadef self) :: RowDef list + (string \<times> py_type) list)
             True = Inr ()"
    using assms by (simp add: validate_keys_full reference_keys_def)
  have g: "getitems item (map fst (datadef self))
           = Inr (map (\<lambda>k. the (map_of item k)) (map fst (datadef self)))"
    using assms by (intro getitems_eq) simp
  have a: "add self item w
        = (case statement_result (add_statement self item) (storage w) of
             Inl e \<Rightarrow> (Inl e, w\<lparr>trace := trace w @ [Connect, Execute (add_query self)
                  (map (\<lambda>k. the (map_of item k)) (map fst (datadef self)))],
                  storage := statement_effect (add_statement self item) (storage w)\<rparr>)
           | Inr r \<Rightarrow> (Inr (lastrowid r),
                w\<lparr>trace := trace w @ [Connect, Execute (add_query self)
                  (map (\<lambda>k. the (map_of item k)) (map fst (datadef self)))],
                  storage := statement_effect (add_statement self item) (storage w),
                  saved := statement_effect (add_statement self item) (storage w)\<rparr>))"
    unfolding add_def v g
    by (simp add: cursor_execute_eq get_connection_def commit_def add_statement_def Let_def
          split: sum.splits)
  show "fst (add self item w)
         = (case statement_result (add_statement self item) (storage w) of
              Inl e \<Rightarrow> Inl e
            | Inr r \<Rightarrow> Inr (lastrowid r))"
    unfolding a by (simp split: sum.splits)
  show "trace (snd (add self item w))
         = trace w @ [Connect, Execute (add_query self)
                                 (map (\<lambda>k. the (map_of item k)) (map fst (datadef self)))]"
    unfolding a by (simp split: sum.splits)
  show "storage (snd (add self item w))
         = statement_effect (add_statement self item) (storage w)"
    unfolding a by (simp split: sum.splits)
  show "saved (snd (add self item w))
         = (case statement_result (add_statement self item) (storage w) of
              Inl e \<Rightarrow> saved w
            | Inr r \<Rightarrow> statement_effect (add_statement self item) (storage w))"
    unfolding a by (simp split: sum.splits)
qed

lemma delete_eq:
  "fst (delete self item_id w)
   = (case statement_result (delete_statement self item_id) (storage w) of
        Inl e \<Rightarrow> Inl e
      | Inr r \<Rightarrow> Inr ())"
  "trace (snd (delete self item_id w))
   = trace w @ [Connect, Execute (delete_query self) [VInt item_id]]"
  "storage (snd (delete self item_id w))
   = statement_effect (delete_statement self item_id) (storage w)"
  "saved (snd (delete self item_id w))
   = (case statement_result (delete_statement self item_id) (storage w) of
        Inl e \<Rightarrow> saved w
      | Inr r \<Rightarrow> statement_effect (delete_statement self item_id) (storage w))"
  by (simp_all add: delete_def cursor_execute_eq get_connection_def commit_def
        delete_statement_def Let_def statement_result_Inl split: sum.splits)

lemma modify_empty: "modify self item_id [] w = (Inr (), w)"
  by (simp add: modify_def)

lemma modify_rejected:
  "info \<noteq> [] \<Longrightarrow>
   validate_keys info (Inr (datadef self) :: RowDef list + (string \<times> py_type) list) False = Inl e
   \<Longrightarrow> modify self item_id info w = (Inl e, w)"
  by (simp add: modify_def)

lemma modify_accepted:
  assumes "info \<noteq> []" and "set (map fst info) \<subseteq> set (map fst (datadef self))"
  shows "fst (modify self item_id info w)
         = (case statement_result (modify_statement self item_id info) (storage w) of
              Inl e \<Rightarrow> Inl e
            | Inr r \<Rightarrow> Inr ())"
    and "trace (snd (modify self item_id info w))
         = trace w @ [Connect, Execute (fst (modify_query self item_id info))
                                   (snd (modify_query self item_id info))]"
    and "storage (snd (modify self item_id info w))
         = statement_effect (modify_statement self item_id info) (storage w)"
    and "saved (snd (modify self item_id info w))
         = (case statement_result (modify_statement self item_id info) (storage w) of
              Inl e \<Rightarrow> saved w
            | Inr r \<Rightarrow> statement_effect (modify_statement self item_id info) (storage w))"
proof -
  have v: "validate_keys info (Inr (datadef self) :: RowDef list + (string \<times> py_type) list)
             False = Inr ()"
    using assms(2) by (simp add: validate_keys_partial reference_keys_def)
  obtain q vs where q: "modify_query self item_id info = (q, vs)"
    by (cases "modify_query self item_id info")
  have a: "modify self item_id info w
        = (case statement_result (modify_statement self item_id info) (storage w) of
             Inl e \<Rightarrow> (Inl e, w\<lparr>trace := trace w @ [Connect, Execute q vs],
                  storage := statement_effect (modify_statement self item_id info) (storage w)\<rparr>)
           | Inr r \<Rightarrow> (Inr (),
                w\<lparr>trace := trace w @ [Connect, Execute q vs],
                  storage := statement_effect (modify_statement self item_id info) (storage w),
                  saved := statement_effect (modify_statement self item_id info) (storage w)\<rparr>))"
    unfolding modify_def v q
    using assms(1)
    by (simp add: cursor_execute_eq get_connection_def commit_def modify_statement_def Let_def
          split: sum.splits)
  show "fst (modify self item_id info w)
         = (case statement_result (modify_statement self item_id info) (storage w) of
              Inl e \<Rightarrow> Inl e
            | Inr r \<Rightarrow> Inr ())"
    unfolding a by (simp split: sum.splits)
  show "trace (snd (modify self item_id info w))
         = trace w @ [Connect, Execute (fst (modify_query self item_id info))
                                   (snd (modify_query self item_id info))]"
    unfolding a q by (simp split: sum.splits)
  show "storage (snd (modify self item_id info w))
         = statement_effect (modify_statement self item_id info) (storage w)"
    unfolding a by (simp split: sum.splits)
  show "saved (snd (modify self item_id info w))
         = (case statement_result (modify_statement self item_id info) (storage w) of
              Inl e \<Rightarrow> saved w
            | Inr r \<Rightarrow> statement_effect (modify_statement self item_id info) (storage w))"
    unfolding a by (simp split: sum.splits)
qed

text \<open>
  The cooperative variant: the same statement on the connection that is kept, which is
  opened once; nothing is committed.
\<close>

lemma add_async_rejected:
  "validate_keys item (Inr (datadef self) :: RowDef list + (string \<times> py_type) list) True = Inl e
   \<Longrightarrow> add_async self item w = (Inl e, w)"
  by (simp add: add_async_def validate_keys_async_eq)

lemma add_async_accepted:
  assumes "set (map fst item) = set (map fst (datadef self))"
  shows "fst (add_async self item w)
         = (case statement_result (add_statement self item) (storage w) of
              Inl e \<Rightarrow> Inl e
            | Inr r \<Rightarrow> Inr (lastrowid r))"
    and "trace (snd (add_async self item w))
         = trace (get_conn w) @ [Execute (add_query_async self)
                  (map (\<lambda>k. the (map_of item k)) (map fst (datadef self)))]"
    and "storage (snd (add_async self item w))
         = statement_effect (add_statement self item) (storage w)"
    and "conn (snd (add_async self item w))"
proof -
  have v: "validate_keys item (Inr (datadef self) :: RowDef list + (string \<times> py_type) list)
             True = Inr ()"
    using assms by (simp add: validate_keys_full reference_keys_def)
  have g: "getitems item (map fst (datadef self))
           = Inr (map (\<lambda>k. the (map_of item k)) (map fst (datadef self)))"
    using assms by (intro getitems_eq) simp
  let ?x = "cursor_execute_async (add_query_async self)
              (map (\<lambda>k. the (map_of item k)) (map fst (datadef self)))
              (add_statement self item) (get_conn w)"
  have a: "add_async self item w
           = (case ?x of (Inl e, w2) \<Rightarrow> (Inl e, w2) | (Inr r, w2) \<Rightarrow> (Inr (lastrowid r), w2))"
    unfolding add_async_def validate_keys_async_eq v g
    by (simp add: get_cursor_def add_statement_def Let_def)
  show "fst (add_async self item w)
         = (case statement_result (add_statement self item) (storage w) of
              Inl e \<Rightarrow> Inl e
            | Inr r \<Rightarrow> Inr (lastrowid r))"
    unfolding a executed_fst by (simp add: cursor_execute_async_fst storage_get_conn)
  show "trace (snd (add_async self item w))
         = trace (get_conn w) @ [Execute (add_query_async self)
                  (map (\<lambda>k. the (map_of item k)) (map fst (datadef self)))]"
    unfolding a executed_snd by (simp add: cursor_execute_async_trace)
  show "storage (snd (add_async self item w))
         = statement_effect (add_statement self item) (storage w)"
    unfolding a executed_snd by (simp add: cursor_execute_async_storage storage_get_conn)
  show "conn (snd (add_async self item w))"
    unfolding a executed_snd by (simp add: cursor_execute_async_conn conn_get_conn)
qed

lemma delete_async_eq:
  "fst (delete_async self item_id w)
   = (case statement_result (delete_statement self item_id) (storage w) of
        Inl e \<Rightarrow> Inl e
      | Inr r \<Rightarrow> Inr ())"
  "trace (snd (delete_async self item_id w))
   = trace (get_conn w) @ [Execute (delete_query_async self) [VInt item_id]]"
  "storage (snd (delete_async self item_id w))
   = statement_effect (delete_statement self item_id) (storage w)"
  "conn (snd (delete_async self item_id w))"
proof -
  let ?x = "cursor_execute_async (delete_query_async self) [VInt item_id]
              (delete_statement self item_id) (get_conn w)"
  have a: "delete_async self item_id w
           = (case ?x of (Inl e, w2) \<Rightarrow> (Inl e, w2) | (Inr r, w2) \<Rightarrow> (Inr ((\<lambda>r. ()) r), w2))"
    by (simp add: delete_async_def get_cursor_def delete_statement_def Let_def)
  show "fst (delete_async self item_id w)
   = (case statement_result (delete_statement self item_id) (storage w) of
        Inl e \<Rightarrow> Inl e
      | Inr r \<Rightarrow> Inr ())"
    unfolding a executed_fst by (simp add: cursor_execute_async_fst storage_get_conn)
  show "trace (snd (delete_async self item_id w))
   = trace (get_conn w) @ [Execute (delete_query_async self) [VInt item_id]]"
    unfolding a executed_snd by (simp add: cursor_execute_async_trace)
  show "storage (snd (delete_async self item_id w))
   = statement_effect (delete_statement self item_id) (storage w)"
    unfolding a executed_snd by (simp add: cursor_execute_async_storage storage_get_conn)
  show "conn (snd (delete_async self item_id w))"
    unfolding a executed_snd by (simp add: cursor_execute_async_conn conn_get_conn)
qed

lemma modify_async_empty: "modify_async self item_id [] w = (Inr (), w)"
  by (simp add: modify_async_def)

lemma modify_async_rejected:
  "info \<noteq> [] \<Longrightarrow>
   validate_keys info (Inr (datadef self) :: RowDef list + (string \<times> py_type) list) False = Inl e
   \<Longrightarrow> modify_async self item_id info w = (Inl e, w)"
  by (simp add: modify_async_def validate_keys_async_eq)

lemma modify_async_accepted:
  assumes "info \<noteq> []" and "set (map fst info) \<subseteq> set (map fst (datadef self))"
  shows "fst (modify_async self item_id info w)
         = (case statement_result (modify_statement self item_id info) (storage w) of
              Inl e \<Rightarrow> Inl e
            | Inr r \<Rightarrow> Inr ())"
    and "trace (snd (modify_async self item_id info w))
         = trace (get_conn w)
           @ [Execute (fst (modify_query_async self item_id info))
                      (snd (modify_query_async self item_id info))]"
    and "storage (snd (modify_async self item_id info w))
         = statement_effect (modify_statement self item_id info) (storage w)"
    and "conn (snd (modify_async self item_id info w))"
proof -
  have v: "validate_keys info (Inr (datadef self) :: RowDef list + (string \<times> py_type) list)
             False = Inr ()"
    using assms(2) by (simp add: validate_keys_partial reference_keys_def)
  obtain q vs where q: "modify_query_async self item_id info = (q, vs)"
    by (cases "modify_query_async self item_id info")
  let ?x = "cursor_execute_async q vs (modify_statement self item_id info) (get_conn w)"
  have a: "modify_async self item_id info w
           = (case ?x of (Inl e, w2) \<Rightarrow> (Inl e, w2) | (Inr r, w2) \<Rightarrow> (Inr ((\<lambda>r. ()) r), w2))"
    unfolding modify_async_def validate_keys_async_eq v q
    using assms(1) by (simp add: get_cursor_def modify_statement_def Let_def)
  show "fst (modify_async self item_id info w)
         = (case statement_result (modify_statement self item_id info) (storage w) of
              Inl e \<Rightarrow> Inl e
            | Inr r \<Rightarrow> Inr ())"
    unfolding a executed_fst by (simp add: cursor_execute_async_fst storage_get_conn)
  show "trace (snd (modify_async self item_id info w))
         = trace (get_conn w)
           @ [Execute (fst (modify_query_async self item_id info))
                      (snd (modify_query_async self item_id info))]"
    unfolding a executed_snd q by (simp add: cursor_execute_async_trace)
  show "storage (snd (modify_async self item_id info w))
         = statement_effect (modify_statement self item_id info) (storage w)"
    unfolding a executed_snd by (simp add: cursor_execute_async_storage storage_get_conn)
  show "conn (snd (modify_async self item_id info w))"
    unfolding a executed_snd by (simp add: cursor_execute_async_conn conn_get_conn)
qed



lemma statement_atomic:
  "(\<exists>e. run st s = Inl e \<and> statement_effect st s = s) \<or>
   (\<exists>r. run st s = Inr (statement_effect st s, r))"
  by (cases "run st s") (auto simp: statement_effect_def)

text \<open>
  C6. In both variants: when key validation raises in add or modify, the operation ends
  with that error before a connection is opened or a statement is executed, so the world
  (the calls to the engine so far and the stored tables) is as it was. An add that
  passes validation, a delete, and a modify with a non-empty change map that passes
  validation each execute exactly one statement, and the tables afterwards are the effect
  of that one statement; a modify with an empty change map executes none. A statement
  either takes effect whole or fails and changes nothing.
\<close>

theorem validation_before_execution:
  fixes dd :: "RowDef list + (string \<times> py_type) list"
  assumes "dd = Inr (datadef self)"
  shows
   "(validate_keys item dd True = Inl e \<longrightarrow>
       add self item w = (Inl e, w) \<and> add_async self item w = (Inl e, w)) \<and>
    (info \<noteq> [] \<and> validate_keys info dd False = Inl e \<longrightarrow>
       modify self item_id info w = (Inl e, w) \<and>
       modify_async self item_id info w = (Inl e, w)) \<and>
    (validate_keys item dd True = Inr () \<longrightarrow>
       (\<exists>params.
          trace (snd (add self item w)) = trace w @ [Connect, Execute (add_query self) params] \<and>
          trace (snd (add_async self item w))
          = trace (get_conn w) @ [Execute (add_query_async self) params]) \<and>
       storage (snd (add self item w))
       = statement_effect (add_statement self item) (storage w) \<and>
       storage (snd (add_async self item w))
       = statement_effect (add_statement self item) (storage w)) \<and>
    trace (snd (delete self item_id w))
    = trace w @ [Connect, Execute (delete_query self) [VInt item_id]] \<and>
    trace (snd (delete_async self item_id w))
    = trace (get_conn w) @ [Execute (delete_query_async self) [VInt item_id]] \<and>
    storage (snd (delete self item_id w))
    = statement_effect (delete_statement self item_id) (storage w) \<and>
    storage (snd (delete_async self item_id w))
    = statement_effect (delete_statement self item_id) (storage w) \<and>
    (info \<noteq> [] \<and> validate_keys info dd False = Inr () \<longrightarrow>
       trace (snd (modify self item_id info w))
       = trace w @ [Connect, Execute (fst (modify_query self item_id info))
                                 (snd (modify_query self item_id info))] \<and>
       trace (snd (modify_async self item_id info w))
       = trace (get_conn w) @ [Execute (fst (modify_query_async self item_id info))
                                       (snd (modify_query_async self item_id info))] \<and>
       storage (snd (modify self item_id info w))
       = statement_effect (modify_statement self item_id info) (storage w) \<and>
       storage (snd (modify_async self item_id info w))
       = statement_effect (modify_statement self item_id info) (storage w)) \<and>
    modify self item_id [] w = (Inr (), w) \<and>
    modify_async self item_id [] w = (Inr (), w) \<and>
    ((\<exists>e. run st s = Inl e \<and> statement_effect st s = s) \<or>
     (\<exists>r. run st s = Inr (statement_effect st s, r)))"
proof -
  have a: "validate_keys item dd True = Inl e \<longrightarrow>
       add self item w = (Inl e, w) \<and> add_async self item w = (Inl e, w)"
    unfolding assms using add_rejected add_async_rejected by blast
  have b: "info \<noteq> [] \<and> validate_keys info dd False = Inl e \<longrightarrow>
       modify self item_id info w = (Inl e, w) \<and>
       modify_async self item_id info w = (Inl e, w)"
    unfolding assms using modify_rejected modify_async_rejected by blast
  have c: "validate_keys item dd True = Inr () \<longrightarrow>
       (\<exists>params.
          trace (snd (add self item w)) = trace w @ [Connect, Execute (add_query self) params] \<and>
          trace (snd (add_async self item w))
          = trace (get_conn w) @ [Execute (add_query_async self) params]) \<and>
       storage (snd (add self item w))
       = statement_effect (add_statement self item) (storage w) \<and>
       storage (snd (add_async self item w))
       = statement_effect (add_statement self item) (storage w)"
  proof
    assume "validate_keys item dd True = Inr ()"
    then have k: "set (map fst item) = set (map fst (datadef self))"
      unfolding assms validate_keys_full by (simp add: reference_keys_def split: if_splits)
    show "(\<exists>params.
          trace (snd (add self item w)) = trace w @ [Connect, Execute (add_query self) params] \<and>
          trace (snd (add_async self item w))
          = trace (get_conn w) @ [Execute (add_query_async self) params]) \<and>
       storage (snd (add self item w))
       = statement_effect (add_statement self item) (storage w) \<and>
       storage (snd (add_async self item w))
       = statement_effect (add_statement self item) (storage w)"
      unfolding add_accepted [OF k] add_async_accepted [OF k] by simp
  qed
  have d: "trace (snd (delete self item_id w))
    = trace w @ [Connect, Execute (delete_query self) [VInt item_id]]"
    "trace (snd (delete_async self item_id w))
    = trace (get_conn w) @ [Execute (delete_query_async self) [VInt item_id]]"
    "storage (snd (delete self item_id w))
    = statement_effect (delete_statement self item_id) (storage w)"
    "storage (snd (delete_async self item_id w))
    = statement_effect (delete_statement self item_id) (storage w)"
    unfolding delete_eq delete_async_eq by simp_all
  have f: "info \<noteq> [] \<and> validate_keys info dd False = Inr () \<longrightarrow>
       trace (snd (modify self item_id info w))
       = trace w @ [Connect, Execute (fst (modify_query self item_id info))
                                 (snd (modify_query self item_id info))] \<and>
       trace (snd (modify_async self item_id info w))
       = trace (get_conn w) @ [Execute (fst (modify_query_async self item_id info))
                                       (snd (modify_query_async self item_id info))] \<and>
       storage (snd (modify self item_id info w))
       = statement_effect (modify_statement self item_id info) (storage w) \<and>
       storage (snd (modify_async self item_id info w))
       = statement_effect (modify_statement self item_id info) (storage w)"
  proof
    assume h: "info \<noteq> [] \<and> validate_keys info dd False = Inr ()"
    then have n: "info \<noteq> []" by simp
    from h have k: "set (map fst info) \<subseteq> set (map fst (datadef self))"
      unfolding assms validate_keys_partial by (simp add: reference_keys_def split: if_splits)
    show "trace (snd (modify self item_id info w))
       = trace w @ [Connect, Execute (fst (modify_query self item_id info))
                                 (snd (modify_query self item_id info))] \<and>
       trace (snd (modify_async self item_id info w))
       = trace (get_conn w) @ [Execute (fst (modify_query_async self item_id info))
                                       (snd (modify_query_async self item_id info))] \<and>
       storage (snd (modify self item_id info w))
       = statement_effect (modify_statement self item_id info) (storage w) \<and>
       storage (snd (modify_async self item_id info w))
       = statement_effect (modify_statement self item_id info) (storage w)"
      unfolding modify_accepted [OF n k] modify_async_accepted [OF n k] by simp
  qed
  from a b c d f modify_empty [of self item_id w] modify_async_empty [of self item_id w]
    statement_atomic [of st s]
  show ?thesis by blast
qed

theorem validation_before_execution_witness:
  "add \<lparr>tabledef = [\<lparr>name = ''title'', type = TStr, unique = False, nullable = False\<rparr>,
                     \<lparr>name = ''price'', type = TFloat, unique = False, nullable = False\<rparr>],
         datadef = [(''title'', TStr), (''price'', TFloat)],
         datadef_with_id = [(''title'', TStr), (''price'', TFloat), (''id'', TInt)],
         table_name = ''books'', dbpath = ''books.db''\<rparr>
     [(''title'', VStr ''Emma'')] fresh_world
   = (Inl (KeysValidationFailure KeysNotEqual), fresh_world) \<and>
   modify_async \<lparr>tabledef = [\<lparr>name = ''title'', type = TStr, unique = False, nullable = False\<rparr>,
                     \<lparr>name = ''price'', type = TFloat, unique = False, nullable = False\<rparr>],
         datadef = [(''title'', TStr), (''price'', TFloat)],
         datadef_with_id = [(''title'', TStr), (''price'', TFloat), (''id'', TInt)],
         table_name = ''books'', dbpath = ''books.db''\<rparr>
     1 [(''year'', VInt 1815)] fresh_world
   = (Inl (KeysValidationFailure (UnexpectedKeys {''year''})), fresh_world) \<and>
   trace (snd (delete \<lparr>tabledef = [\<lparr>name = ''title'', type = TStr, unique = False, nullable = False\<rparr>,
                     \<lparr>name = ''price'', type = TFloat, unique = False, nullable = False\<rparr>],
         datadef = [(''title'', TStr), (''price'', TFloat)],
         datadef_with_id = [(''title'', TStr), (''price'', TFloat), (''id'', TInt)],
         table_name = ''books'', dbpath = ''books.db''\<rparr> 4 fresh_world))
   = [Connect, Execute ''DELETE FROM books WHERE id = ?'' [VInt 4]]"
proof -
  let ?self = "\<lparr>tabledef = [\<lparr>name = ''title'', type = TStr, unique = False, nullable = False\<rparr>,
                     \<lparr>name = ''price'', type = TFloat, unique = False, nullable = False\<rparr>],
         datadef = [(''title'', TStr), (''price'', TFloat)],
         datadef_with_id = [(''title'', TStr), (''price'', TFloat), (''id'', TInt)],
         table_name = ''books'', dbpath = ''books.db''\<rparr>"
  let ?dd = "Inr (datadef ?self) :: RowDef list + (string \<times> py_type) list"
  let ?item = "[(''title'', VStr ''Emma'')]"
  let ?info = "[(''year'', VInt 1815)]"
  have v1: "validate_keys ?item ?dd True = Inl (KeysValidationFailure KeysNotEqual)"
    by (simp add: validate_keys_full reference_keys_def)
  have v2: "validate_keys ?info ?dd False
            = Inl (KeysValidationFailure (UnexpectedKeys {''year''}))"
    by (simp add: validate_keys_partial reference_keys_def)
  have a: "add ?self ?item fresh_world
           = (Inl (KeysValidationFailure KeysNotEqual), fresh_world)"
    using validation_before_execution
            [OF refl, of ?item ?self "KeysValidationFailure KeysNotEqual" fresh_world] v1
    by blast
  have b: "modify_async ?self 1 ?info fresh_world
           = (Inl (KeysValidationFailure (UnexpectedKeys {''year''})), fresh_world)"
    using validation_before_execution
            [OF refl, of _ ?self "KeysValidationFailure (UnexpectedKeys {''year''})"
               fresh_world ?info 1] v2
    by blast
  have c: "trace (snd (delete ?self 4 fresh_world))
           = [Connect, Execute ''DELETE FROM books WHERE id = ?'' [VInt 4]]"
    using validation_before_execution [OF refl, of _ ?self _ fresh_world _ 4]
    by (simp add: fresh_world_def delete_query_def)
  from a b c show ?thesis by blast
qed

subsection \<open>The two variants\<close>

lemma as_dict_async_eq: "as_dict_async = as_dict"
  by (intro ext) (simp add: as_dict_async_def as_dict_def)

lemma add_query_async_eq: "add_query_async = add_query"
  by (intro ext) (simp add: add_query_async_def add_query_def)

lemma delete_query_async_eq: "delete_query_async = delete_query"
  by (intro ext) (simp add: delete_query_async_def delete_query_def)

lemma modify_query_async_eq: "modify_query_async = modify_query"
  by (intro ext) (simp add: modify_query_async_def modify_query_def)

lemma TableDef_mapping_same:
  "\<forall>p \<in> set m. lower (fst p) \<notin> RESERVED_COLUMNS \<Longrightarrow>
   TableDef_mapping_async m self = TableDef_mapping m self"
proof (induction m arbitrary: self)
  case Nil
  then show ?case by simp
next
  case (Cons p m)
  obtain n t where p: "p = (n, t)" by (cases p)
  from Cons.prems p have ok: "lower n \<notin> RESERVED_COLUMNS" by simp
  then have ok': "lower n \<noteq> ''id''" by (auto simp: RESERVED_COLUMNS_def)
  from Cons.prems have "\<forall>q \<in> set m. lower (fst q) \<notin> RESERVED_COLUMNS" by simp
  from Cons.IH [OF this] ok ok' p show ?case by simp
qed

lemma TableDef_iterable_same:
  "\<forall>rd. ARowDef rd \<in> set xs \<longrightarrow> lower (name rd) \<notin> RESERVED_COLUMNS \<Longrightarrow>
   TableDef_iterable_async xs self = TableDef_iterable xs self"
proof (induction xs self rule: TableDef_iterable.induct)
  case (1 self)
  then show ?case by simp
next
  case (2 rd rest self)
  from "2.prems" have ok: "lower (name rd) \<notin> RESERVED_COLUMNS" by simp
  from "2.prems" have "\<forall>x. ARowDef x \<in> set rest \<longrightarrow> lower (name x) \<notin> RESERVED_COLUMNS"
    by simp
  from "2.IH" [OF this] ok show ?case by (simp add: Let_def)
next
  case (3 ty rest self)
  then show ?case by simp
qed

lemma trace_get_conn: "\<not> conn w \<Longrightarrow> trace (get_conn w) = trace w @ [Connect]"
  by (simp add: get_conn_def)

lemma add_trace_same:
  assumes "\<not> conn w"
  shows "trace (snd (add_async self item w)) = trace (snd (add self item w))"
proof (cases "set (map fst item) = set (map fst (datadef self))")
  case True
  show ?thesis
    unfolding add_accepted(2) [OF True] add_async_accepted(2) [OF True]
    by (simp add: trace_get_conn [OF assms] add_query_async_eq)
next
  case False
  then have "validate_keys item
               (Inr (datadef self) :: RowDef list + (string \<times> py_type) list) True
             = Inl (KeysValidationFailure KeysNotEqual)"
    by (simp add: validate_keys_full reference_keys_def)
  from add_rejected [OF this] add_async_rejected [OF this] show ?thesis by simp
qed

lemma modify_trace_same:
  assumes "\<not> conn w"
  shows "trace (snd (modify_async self item_id info w)) = trace (snd (modify self item_id info w))"
proof (cases "info = []")
  case True
  then show ?thesis by (simp add: modify_empty modify_async_empty)
next
  case n: False
  show ?thesis
  proof (cases "set (map fst info) \<subseteq> set (map fst (datadef self))")
    case True
    show ?thesis
      unfolding modify_accepted(2) [OF n True] modify_async_accepted(2) [OF n True]
      by (simp add: trace_get_conn [OF assms] modify_query_async_eq)
  next
    case False
    then have "validate_keys info
                 (Inr (datadef self) :: RowDef list + (string \<times> py_type) list) False
               = Inl (KeysValidationFailure
                        (UnexpectedKeys (set (map fst info) - set (map fst (datadef self)))))"
      by (simp add: validate_keys_partial reference_keys_def)
    from modify_rejected [OF n this] modify_async_rejected [OF n this] show ?thesis by simp
  qed
qed

lemma search_trace_same:
  assumes "\<not> conn w"
  shows "trace (snd (search_async self fuzzy info w)) = trace (snd (search self fuzzy info w))"
proof (cases "set (map fst info) \<subseteq> set (map fst (datadef_with_id self))")
  case True
  show ?thesis
    unfolding search_eq(2) [OF True] search_async_eq(2) [OF True]
    by (simp add: trace_get_conn [OF assms])
next
  case False
  then have "validate_keys info
               (Inr (datadef_with_id self) :: RowDef list + (string \<times> py_type) list) False
             = Inl (KeysValidationFailure
                      (UnexpectedKeys (set (map fst info) - set (map fst (datadef_with_id self)))))"
    by (simp add: validate_keys_partial reference_keys_def)
  then show ?thesis by (simp add: search_def search_async_def validate_keys_async_eq)
qed

text \<open>
  C9, as stated, fails. The two variants do not accept the same schema arguments: the
  blocking variant builds a schema from a field map with the name \<open>_fuzzy_match_\<close>, the
  cooperative variant rejects it. And they do not compute the same results for the same
  call: \<open>search(fuzzy_match=1, title='Emma')\<close> is a substring search in the blocking
  variant and a keys-validation failure in the cooperative one, whose flag has another
  name.
\<close>

theorem variants_differ_counterexample:
  "TableDef (IsMapping [(''_fuzzy_match_'', TInt)])
   \<noteq> TableDef_async (IsMapping [(''_fuzzy_match_'', TInt)]) \<and>
   trace (snd (search_call
     \<lparr>tabledef = [\<lparr>name = ''title'', type = TStr, unique = False, nullable = False\<rparr>],
      datadef = [(''title'', TStr)],
      datadef_with_id = [(''title'', TStr), (''id'', TInt)],
      table_name = ''books'', dbpath = ''books.db''\<rparr>
     [] [(''fuzzy_match'', VInt 1), (''title'', VStr ''Emma'')] fresh_world))
   = [Connect, Execute ''SELECT * FROM books WHERE title LIKE ?'' [VStr ''%Emma%'']] \<and>
   search_call_async
     \<lparr>tabledef = [\<lparr>name = ''title'', type = TStr, unique = False, nullable = False\<rparr>],
      datadef = [(''title'', TStr)],
      datadef_with_id = [(''title'', TStr), (''id'', TInt)],
      table_name = ''books'', dbpath = ''books.db''\<rparr>
     [] [(''fuzzy_match'', VInt 1), (''title'', VStr ''Emma'')] fresh_world
   = (Inl (KeysValidationFailure (UnexpectedKeys {''fuzzy_match''})), fresh_world)"
proof -
  let ?self = "\<lparr>tabledef = [\<lparr>name = ''title'', type = TStr, unique = False, nullable = False\<rparr>],
      datadef = [(''title'', TStr)],
      datadef_with_id = [(''title'', TStr), (''id'', TInt)],
      table_name = ''books'', dbpath = ''books.db''\<rparr>"
  let ?kw = "[(''fuzzy_match'', VInt 1), (''title'', VStr ''Emma'')]"
  have a: "TableDef (IsMapping [(''_fuzzy_match_'', TInt)])
           \<noteq> TableDef_async (IsMapping [(''_fuzzy_match_'', TInt)])"
    by (simp add: TableDef_def TableDef_async_def lower_fuzzy RESERVED_COLUMNS_def)
  have "search_call ?self [] ([] @ (''fuzzy_match'', VInt 1) # [(''title'', VStr ''Emma'')])
          fresh_world
        = search ?self (truthy (VInt 1)) ([] @ [(''title'', VStr ''Emma'')]) fresh_world"
    by (rule search_call_keyword) simp_all
  then have "trace (snd (search_call ?self [] ?kw fresh_world))
             = trace fresh_world @ [Connect, spec_select ?self True [(''title'', VStr ''Emma'')]]"
    by (simp add: search_eq)
  then have b: "trace (snd (search_call ?self [] ?kw fresh_world))
                = [Connect, Execute ''SELECT * FROM books WHERE title LIKE ?'' [VStr ''%Emma%'']]"
    by (simp add: spec_select_def spec_predicate_def spec_parameter_def spec_substring_def
          fresh_world_def)
  have "bind_call ''_fuzzy_match_'' [] ?kw = Inr (None, ?kw)"
    by (rule bind_default) simp_all
  then have "search_call_async ?self [] ?kw fresh_world = search_async ?self False ?kw fresh_world"
    by (simp add: search_call_async_def)
  moreover have "validate_keys ?kw
                   (Inr (datadef_with_id ?self) :: RowDef list + (string \<times> py_type) list) False
                 = Inl (KeysValidationFailure (UnexpectedKeys {''fuzzy_match''}))"
    by (simp add: validate_keys_partial reference_keys_def insert_Diff_if)
  ultimately have c: "search_call_async ?self [] ?kw fresh_world
        = (Inl (KeysValidationFailure (UnexpectedKeys {''fuzzy_match''})), fresh_world)"
    by (simp add: search_async_def validate_keys_async_eq)
  from a b c show ?thesis by blast
qed

text \<open>
  C9, amended. The blocking and the cooperative variant agree in key validation, in the
  field map derived from a schema, in the rendered create, insert, update, delete and
  select statements and their bound parameters (as functions of the schema, the record,
  the id, the change map, the value of the fuzzy flag and the filter map, and as
  \<open>create_table\<close>, \<open>add\<close>, \<open>delete\<close>, \<open>modify\<close> and \<open>search\<close> pass them to the storage
  engine), and in result-record rendering. Schema construction gives the same result in
  both variants on every argument in which no field's lowercased name is \<open>id\<close> or
  \<open>_fuzzy_match_\<close>. A call of search passes the same statement to the engine in both
  variants when the flag is passed positionally, or under each variant's own keyword
  (\<open>fuzzy_match\<close> in the blocking variant, \<open>_fuzzy_match_\<close> in the cooperative one),
  and no filter is named \<open>fuzzy_match\<close>, \<open>_fuzzy_match_\<close> or \<open>self\<close>.
\<close>

theorem variants_agree:
  "validate_keys_async d dt fullmatch = validate_keys d dt fullmatch \<and>
   as_dict_async td = as_dict td \<and>
   create_table_query_async self = create_table_query self \<and>
   add_query_async self = add_query self \<and>
   delete_query_async self = delete_query self \<and>
   modify_query_async self item_id info = modify_query self item_id info \<and>
   search_query_async self fuzzy info = search_query self fuzzy info \<and>
   render_rows_async keys rs = render_rows keys rs \<and>
   (\<not> conn w \<longrightarrow>
      trace (snd (create_table_async self w)) = trace (snd (create_table self w)) \<and>
      trace (snd (add_async self item w)) = trace (snd (add self item w)) \<and>
      trace (snd (delete_async self item_id w)) = trace (snd (delete self item_id w)) \<and>
      trace (snd (modify_async self item_id info w)) = trace (snd (modify self item_id info w)) \<and>
      trace (snd (search_async self fuzzy info w)) = trace (snd (search self fuzzy info w))) \<and>
   (\<not> conn w \<and> distinct (map fst (before @ after)) \<and>
    ''self'' \<notin> set (map fst (before @ after)) \<and>
    ''fuzzy_match'' \<notin> set (map fst (before @ after)) \<and>
    ''_fuzzy_match_'' \<notin> set (map fst (before @ after)) \<longrightarrow>
      trace (snd (search_call_async self [flag] (before @ after) w))
      = trace (snd (search_call self [flag] (before @ after) w)) \<and>
      trace (snd (search_call_async self [] (before @ (''_fuzzy_match_'', flag) # after) w))
      = trace (snd (search_call self [] (before @ (''fuzzy_match'', flag) # after) w)) \<and>
      trace (snd (search_call_async self [] (before @ after) w))
      = trace (snd (search_call self [] (before @ after) w))) \<and>
   ((\<forall>p \<in> set m. lower (fst p) \<notin> RESERVED_COLUMNS) \<longrightarrow>
      TableDef_async (IsMapping m) = TableDef (IsMapping m)) \<and>
   ((\<forall>rd. ARowDef rd \<in> set xs \<longrightarrow> lower (name rd) \<notin> RESERVED_COLUMNS) \<longrightarrow>
      TableDef_async (IsIterable xs) = TableDef (IsIterable xs)) \<and>
   TableDef_async Neither = TableDef Neither"
proof -
  have a: "as_dict_async td = as_dict td"
          "create_table_query_async self = create_table_query self"
          "add_query_async self = add_query self"
          "delete_query_async self = delete_query self"
          "modify_query_async self item_id info = modify_query self item_id info"
          "search_query_async self fuzzy info = search_query self fuzzy info"
    by (simp_all add: as_dict_async_eq create_table_query_async_eq add_query_async_eq
          delete_query_async_eq modify_query_async_eq search_query_async_eq)
  have b: "(\<forall>p \<in> set m. lower (fst p) \<notin> RESERVED_COLUMNS) \<longrightarrow>
      TableDef_async (IsMapping m) = TableDef (IsMapping m)"
    using TableDef_mapping_same [of m "[]"] by (simp add: TableDef_async_def TableDef_def)
  have c: "(\<forall>rd. ARowDef rd \<in> set xs \<longrightarrow> lower (name rd) \<notin> RESERVED_COLUMNS) \<longrightarrow>
      TableDef_async (IsIterable xs) = TableDef (IsIterable xs)"
    using TableDef_iterable_same [of xs "[]"] by (simp add: TableDef_async_def TableDef_def)
  have d: "TableDef_async Neither = TableDef Neither"
    by (simp add: TableDef_async_def TableDef_def)
  have e: "\<not> conn w \<longrightarrow>
      trace (snd (create_table_async self w)) = trace (snd (create_table self w)) \<and>
      trace (snd (add_async self item w)) = trace (snd (add self item w)) \<and>
      trace (snd (delete_async self item_id w)) = trace (snd (delete self item_id w)) \<and>
      trace (snd (modify_async self item_id info w)) = trace (snd (modify self item_id info w)) \<and>
      trace (snd (search_async self fuzzy info w)) = trace (snd (search self fuzzy info w))"
  proof
    assume n: "\<not> conn w"
    have "trace (snd (create_table_async self w)) = trace (snd (create_table self w))"
      by (simp add: create_table_async_trace create_table_trace trace_get_conn [OF n]
            create_table_query_async_eq)
    moreover have "trace (snd (delete_async self item_id w)) = trace (snd (delete self item_id w))"
      by (simp add: delete_eq delete_async_eq trace_get_conn [OF n] delete_query_async_eq)
    ultimately show "trace (snd (create_table_async self w)) = trace (snd (create_table self w)) \<and>
      trace (snd (add_async self item w)) = trace (snd (add self item w)) \<and>
      trace (snd (delete_async self item_id w)) = trace (snd (delete self item_id w)) \<and>
      trace (snd (modify_async self item_id info w)) = trace (snd (modify self item_id info w)) \<and>
      trace (snd (search_async self fuzzy info w)) = trace (snd (search self fuzzy info w))"
      using add_trace_same [OF n] modify_trace_same [OF n] search_trace_same [OF n] by simp
  qed
  have f: "\<not> conn w \<and> distinct (map fst (before @ after)) \<and>
    ''self'' \<notin> set (map fst (before @ after)) \<and>
    ''fuzzy_match'' \<notin> set (map fst (before @ after)) \<and>
    ''_fuzzy_match_'' \<notin> set (map fst (before @ after)) \<longrightarrow>
      trace (snd (search_call_async self [flag] (before @ after) w))
      = trace (snd (search_call self [flag] (before @ after) w)) \<and>
      trace (snd (search_call_async self [] (before @ (''_fuzzy_match_'', flag) # after) w))
      = trace (snd (search_call self [] (before @ (''fuzzy_match'', flag) # after) w)) \<and>
      trace (snd (search_call_async self [] (before @ after) w))
      = trace (snd (search_call self [] (before @ after) w))"
  proof
    assume h: "\<not> conn w \<and> distinct (map fst (before @ after)) \<and>
      ''self'' \<notin> set (map fst (before @ after)) \<and>
      ''fuzzy_match'' \<notin> set (map fst (before @ after)) \<and>
      ''_fuzzy_match_'' \<notin> set (map fst (before @ after))"
    then have n: "\<not> conn w" and dd: "distinct (map fst (before @ after))"
      and s: "''self'' \<notin> set (map fst (before @ after))"
      and f1: "''fuzzy_match'' \<notin> set (map fst (before @ after))"
      and f2: "''_fuzzy_match_'' \<notin> set (map fst (before @ after))"
      by blast+
    show "trace (snd (search_call_async self [flag] (before @ after) w))
      = trace (snd (search_call self [flag] (before @ after) w)) \<and>
      trace (snd (search_call_async self [] (before @ (''_fuzzy_match_'', flag) # after) w))
      = trace (snd (search_call self [] (before @ (''fuzzy_match'', flag) # after) w)) \<and>
      trace (snd (search_call_async self [] (before @ after) w))
      = trace (snd (search_call self [] (before @ after) w))"
      unfolding search_call_positional [OF dd s f1] search_call_async_positional [OF dd s f2]
        search_call_keyword [OF dd s f1] search_call_async_keyword [OF dd s f2]
        search_call_default [OF dd s f1] search_call_async_default [OF dd s f2]
      using search_trace_same [OF n] by simp
  qed
  from a b c d e f validate_keys_async_eq [of d dt fullmatch] render_rows_async_eq [of keys rs]
  show ?thesis by blast
qed

theorem variants_agree_witness:
  "TableDef_async (IsMapping [(''title'', TStr)]) = TableDef (IsMapping [(''title'', TStr)]) \<and>
   TableDef_async (IsIterable [ARowDef \<lparr>name = ''title'', type = TStr, unique = True,
                                        nullable = False\<rparr>, NotRowDef ''int''])
   = Inl (ValueError ''expect RowDef, got int'') \<and>
   trace (snd (delete_async
     \<lparr>tabledef = [\<lparr>name = ''title'', type = TStr, unique = False, nullable = False\<rparr>],
      datadef = [(''title'', TStr)],
      datadef_with_id = [(''title'', TStr), (''id'', TInt)],
      table_name = ''books'', dbpath = ''books.db''\<rparr> 4 fresh_world))
   = [Connect, Execute ''DELETE FROM books WHERE id = ?'' [VInt 4]] \<and>
   trace (snd (search_call_async
     \<lparr>tabledef = [\<lparr>name = ''title'', type = TStr, unique = False, nullable = False\<rparr>],
      datadef = [(''title'', TStr)],
      datadef_with_id = [(''title'', TStr), (''id'', TInt)],
      table_name = ''books'', dbpath = ''books.db''\<rparr>
     [] [(''_fuzzy_match_'', VInt 1), (''title'', VStr ''Emma'')] fresh_world))
   = [Connect, Execute ''SELECT * FROM books WHERE title LIKE ?'' [VStr ''%Emma%'']]"
proof -
  let ?m = "[(''title'', TStr)]"
  let ?xs = "[ARowDef \<lparr>name = ''title'', type = TStr, unique = True, nullable = False\<rparr>,
              NotRowDef ''int'']"
  let ?self = "\<lparr>tabledef = [\<lparr>name = ''title'', type = TStr, unique = False, nullable = False\<rparr>],
      datadef = [(''title'', TStr)],
      datadef_with_id = [(''title'', TStr), (''id'', TInt)],
      table_name = ''books'', dbpath = ''books.db''\<rparr>"
  let ?after = "[(''title'', VStr ''Emma'')]"
  have h1: "\<forall>p \<in> set ?m. lower (fst p) \<notin> RESERVED_COLUMNS"
    by (simp add: lower_title RESERVED_COLUMNS_def)
  have h2: "\<forall>rd. ARowDef rd \<in> set ?xs \<longrightarrow> lower (name rd) \<notin> RESERVED_COLUMNS"
    by (auto simp: lower_title RESERVED_COLUMNS_def)
  have h3: "\<not> conn fresh_world" by (simp add: fresh_world_def)
  have h4: "\<not> conn fresh_world \<and> distinct (map fst ([] @ ?after)) \<and>
    ''self'' \<notin> set (map fst ([] @ ?after)) \<and>
    ''fuzzy_match'' \<notin> set (map fst ([] @ ?after)) \<and>
    ''_fuzzy_match_'' \<notin> set (map fst ([] @ ?after))"
    by (simp add: fresh_world_def)
  have a: "TableDef_async (IsMapping ?m) = TableDef (IsMapping ?m)"
    using variants_agree [where m = ?m and xs = ?xs] h1 by blast
  have "TableDef_async (IsIterable ?xs) = TableDef (IsIterable ?xs)"
    using variants_agree [where m = ?m and xs = ?xs] h2 by blast
  then have b: "TableDef_async (IsIterable ?xs) = Inl (ValueError ''expect RowDef, got int'')"
    by (simp add: TableDef_def)
  have "trace (snd (delete_async ?self 4 fresh_world)) = trace (snd (delete ?self 4 fresh_world))"
    using variants_agree [where w = fresh_world and self = ?self and item_id = 4] h3 by blast
  then have c: "trace (snd (delete_async ?self 4 fresh_world))
                = [Connect, Execute ''DELETE FROM books WHERE id = ?'' [VInt 4]]"
    by (simp add: delete_eq delete_query_def fresh_world_def)
  have "trace (snd (search_call_async ?self [] ([] @ (''_fuzzy_match_'', VInt 1) # ?after)
                      fresh_world))
        = trace (snd (search_call ?self [] ([] @ (''fuzzy_match'', VInt 1) # ?after) fresh_world))"
    using variants_agree [where w = fresh_world and self = ?self and before = "[]"
                            and after = ?after and flag = "VInt 1"] h4
    by blast
  moreover have "search_call ?self [] ([] @ (''fuzzy_match'', VInt 1) # ?after) fresh_world
        = search ?self (truthy (VInt 1)) ([] @ ?after) fresh_world"
    by (rule search_call_keyword) simp_all
  ultimately have d: "trace (snd (search_call_async ?self []
                        [(''_fuzzy_match_'', VInt 1), (''title'', VStr ''Emma'')] fresh_world))
        = [Connect, Execute ''SELECT * FROM books WHERE title LIKE ?'' [VStr ''%Emma%'']]"
    by (simp add: search_eq spec_select_def spec_predicate_def spec_parameter_def
          spec_substring_def fresh_world_def)
  from a b c d show ?thesis by blast
qed

subsection \<open>Deleting\<close>









subsection \<open>Modifying\<close>






















subsection \<open>Adding and finding again\<close>




















end
